theory Spec2Isabelle
  imports Main
begin

section \<open>The quota guard: data model\<close>

text \<open>
  The program \<^verbatim>\<open>scripts/openai_quota_guard.py\<close> keeps one JSON document in a state file
  and decides, per invocation, whether a request for a model may consume tokens of a
  daily bucket. The state is whatever \<^verbatim>\<open>json.load\<close> returns, so it is modelled as a JSON
  value: \<^verbatim>\<open>None\<close>, \<^verbatim>\<open>bool\<close>, \<^verbatim>\<open>int\<close> (unbounded), \<^verbatim>\<open>str\<close>, \<^verbatim>\<open>list\<close> and \<^verbatim>\<open>dict\<close>.
  A \<^verbatim>\<open>dict\<close> is an association list in insertion order. JSON numbers with a fraction
  or an exponent (Python \<^verbatim>\<open>float\<close>) are not represented.
\<close>

datatype json =
    JNull
  | JBool bool
  | JInt int
  | JStr string
  | JArr "json list"
  | JObj "(string \<times> json) list"

type_synonym pydict = "(string \<times> json) list"

text \<open>
  The exceptions the program can raise implicitly: \<^verbatim>\<open>.get\<close> or \<^verbatim>\<open>.setdefault\<close> on a value
  that is not a \<^verbatim>\<open>dict\<close>, a comparison or a subtraction between an \<^verbatim>\<open>int\<close> and a value
  that is not a number, subscripting a missing key, a state file that is not UTF-8, and a failing write.
\<close>

datatype error = AttributeError | TypeError | KeyError | UnicodeDecodeError | IOError

subsection \<open>Dictionary operations\<close>

text \<open>\<^verbatim>\<open>d.get(k)\<close>: \<open>None\<close> stands for Python's \<^verbatim>\<open>None\<close> result of a missing key.\<close>

definition dict_get :: "pydict \<Rightarrow> string \<Rightarrow> json option" where
  "dict_get d k = map_of d k"

text \<open>\<^verbatim>\<open>d.get(k, v)\<close>.\<close>

definition dict_get_or :: "pydict \<Rightarrow> string \<Rightarrow> json \<Rightarrow> json" where
  "dict_get_or d k v = (case map_of d k of Some x \<Rightarrow> x | None \<Rightarrow> v)"

text \<open>\<^verbatim>\<open>d[k] = v\<close>: an existing key keeps its position, a new key goes last.\<close>

fun dict_set :: "pydict \<Rightarrow> string \<Rightarrow> json \<Rightarrow> pydict" where
  "dict_set [] k v = [(k, v)]"
| "dict_set ((k', v') # d) k v = (if k' = k then (k, v) # d else (k', v') # dict_set d k v)"

text \<open>\<^verbatim>\<open>d.setdefault(k, v)\<close>: only a missing key is added; a key bound to \<^verbatim>\<open>None\<close> is present.\<close>

definition dict_setdefault :: "pydict \<Rightarrow> string \<Rightarrow> json \<Rightarrow> pydict" where
  "dict_setdefault d k v = (case map_of d k of Some x \<Rightarrow> d | None \<Rightarrow> d @ [(k, v)])"

subsection \<open>The registry\<close>

definition DAILY_LIMITS :: "(string \<times> int) list" where
  "DAILY_LIMITS = [(''tokens_250k'', 250000), (''tokens_2_5m'', 2500000)]"

definition MODEL_BUCKETS :: "(string \<times> string) list" where
  "MODEL_BUCKETS =
    [(''gpt-5.1'', ''tokens_250k''),
     (''gpt-5.1-codex'', ''tokens_250k''),
     (''gpt-5'', ''tokens_250k''),
     (''gpt-5-codex'', ''tokens_250k''),
     (''gpt-5-chat-latest'', ''tokens_250k''),
     (''gpt-4.1'', ''tokens_250k''),
     (''gpt-4o'', ''tokens_250k''),
     (''o1'', ''tokens_250k''),
     (''o3'', ''tokens_250k''),
     (''gpt-5.1-codex-mini'', ''tokens_2_5m''),
     (''gpt-5-mini'', ''tokens_2_5m''),
     (''gpt-5-nano'', ''tokens_2_5m''),
     (''gpt-4.1-mini'', ''tokens_2_5m''),
     (''gpt-4.1-nano'', ''tokens_2_5m''),
     (''gpt-4o-mini'', ''tokens_2_5m''),
     (''o3-mini'', ''tokens_2_5m''),
     (''o4-mini'', ''tokens_2_5m''),
     (''codex-mini-latest'', ''tokens_2_5m'')]"

text \<open>\<^verbatim>\<open>DAILY_LIMITS.copy()\<close> as a JSON object.\<close>

definition limits_copy :: "(string \<times> int) list \<Rightarrow> pydict" where
  "limits_copy ls = map (\<lambda>(bucket, limit). (bucket, JInt limit)) ls"

definition bucket_for_model :: "string \<Rightarrow> string option" where
  "bucket_for_model model = map_of MODEL_BUCKETS model"

subsection \<open>The state store\<close>

text \<open>
  What one invocation finds at \<^verbatim>\<open>STATE_FILE\<close>: no file (\<^verbatim>\<open>exists()\<close> is false), a file
  whose \<^verbatim>\<open>open\<close> or \<^verbatim>\<open>read\<close> raises \<^verbatim>\<open>IOError\<close>, a file whose bytes are not UTF-8
  (\<^verbatim>\<open>json.load\<close> raises \<^verbatim>\<open>UnicodeDecodeError\<close>, a \<^verbatim>\<open>ValueError\<close> that is neither a
  \<^verbatim>\<open>JSONDecodeError\<close> nor an \<^verbatim>\<open>IOError\<close>), a file that is not JSON (\<^verbatim>\<open>JSONDecodeError\<close>),
  or a file holding a JSON document.
\<close>

datatype store = Missing | Unreadable | Misencoded | Undecodable | Stored json

text \<open>
  The world of one invocation: the value of \<^verbatim>\<open>date.today().isoformat()\<close> (taken as
  constant during the invocation), the state file, what a write would do
  (\<open>None\<close>: it succeeds; \<open>Some s\<close>: \<^verbatim>\<open>mkdir\<close>, \<^verbatim>\<open>open\<close> or \<^verbatim>\<open>json.dump\<close> raises
  \<^verbatim>\<open>IOError\<close> and leaves the file as \<open>s\<close>), and the number of \<^verbatim>\<open>save_state\<close> calls so far.
\<close>

record world =
  today :: string
  state_file :: store
  write_fault :: "store option"
  saves :: nat

definition default_state :: "string \<Rightarrow> pydict" where
  "default_state today_str =
     [(''date'', JStr today_str),
      (''buckets'', JObj (limits_copy DAILY_LIMITS)),
      (''plan_tokens_left'', JInt 0)]"

text \<open>
  The loop \<^verbatim>\<open>for bucket, limit in DAILY_LIMITS.items(): state["buckets"].setdefault(bucket, limit)\<close>.
  Each round subscripts \<^verbatim>\<open>state\<close> again and mutates the inner dictionary in place.
\<close>

fun fill_buckets :: "(string \<times> int) list \<Rightarrow> pydict \<Rightarrow> error + pydict" where
  "fill_buckets [] state = Inr state"
| "fill_buckets ((bucket, limit) # rest) state =
     (case dict_get state ''buckets'' of
        None \<Rightarrow> Inl KeyError
      | Some (JObj b) \<Rightarrow>
          fill_buckets rest (dict_set state ''buckets'' (JObj (dict_setdefault b bucket (JInt limit))))
      | Some other \<Rightarrow> Inl AttributeError)"

text \<open>
  Lines 63 to 71 of \<^verbatim>\<open>load_state\<close>, the rollover policy (the specification's
  \<^verbatim>\<open>reconcile(raw, today)\<close>), on the value \<^verbatim>\<open>json.load\<close> returned.
\<close>

definition rollover :: "string \<Rightarrow> json \<Rightarrow> error + pydict" where
  "rollover today_str raw =
     (case raw of
        JObj state \<Rightarrow>
          (let state1 =
                 (if dict_get state ''date'' \<noteq> Some (JStr today_str)
                  then dict_set (default_state today_str) ''plan_tokens_left''
                         (dict_get_or state ''plan_tokens_left'' (JInt 0))
                  else state);
               state2 = dict_setdefault state1 ''buckets'' (JObj (limits_copy DAILY_LIMITS))
           in case fill_buckets DAILY_LIMITS state2 of
                Inl e \<Rightarrow> Inl e
              | Inr state3 \<Rightarrow> Inr (dict_setdefault state3 ''plan_tokens_left'' (JInt 0)))
      | other \<Rightarrow> Inl AttributeError)"

definition load_state :: "world \<Rightarrow> error + pydict" where
  "load_state w =
     (case state_file w of
        Missing \<Rightarrow> Inr (default_state (today w))
      | Unreadable \<Rightarrow> Inr (default_state (today w))
      | Undecodable \<Rightarrow> Inr (default_state (today w))
      | Misencoded \<Rightarrow> Inl UnicodeDecodeError
      | Stored raw \<Rightarrow> rollover (today w) raw)"

text \<open>
  \<^verbatim>\<open>save_state\<close> stamps the date and replaces the file. Reading back what \<^verbatim>\<open>json.dump\<close>
  wrote gives the same document.
\<close>

definition save_state :: "world \<Rightarrow> pydict \<Rightarrow> (error + unit) \<times> world" where
  "save_state w state =
     (case write_fault w of
        Some damaged \<Rightarrow> (Inl IOError, w\<lparr>state_file := damaged, saves := Suc (saves w)\<rparr>)
      | None \<Rightarrow>
          (Inr (),
           w\<lparr>state_file := Stored (JObj (dict_set state ''date'' (JStr (today w)))),
             saves := Suc (saves w)\<rparr>))"

subsection \<open>Model names\<close>

text \<open>
  \<^verbatim>\<open>args.model.strip().lower()\<close>. A character stands for a code point below 256; there
  \<^verbatim>\<open>str.strip\<close> removes the code points 9 to 13, 28 to 32, 133 and 160 from both ends, and
  \<^verbatim>\<open>str.lower\<close> adds 32 to the code points 65 to 90, 192 to 214 and 216 to 222 and leaves
  the others. Code points from 256 on are not represented.
\<close>

definition isspace :: "char \<Rightarrow> bool" where
  "isspace c = (of_char c \<in> set [9, 10, 11, 12, 13, 28, 29, 30, 31, 32, 133, 160 :: nat])"

definition str_strip :: "string \<Rightarrow> string" where
  "str_strip s = rev (dropWhile isspace (rev (dropWhile isspace s)))"

definition lower_char :: "char \<Rightarrow> char" where
  "lower_char c =
     (let n = (of_char c :: nat)
      in if (65 \<le> n \<and> n \<le> 90) \<or> (192 \<le> n \<and> n \<le> 214) \<or> (216 \<le> n \<and> n \<le> 222)
         then char_of (n + 32) else c)"

definition str_lower :: "string \<Rightarrow> string" where
  "str_lower s = map lower_char s"

subsection \<open>The commands\<close>

text \<open>
  The integer Python uses when a JSON value meets an \<^verbatim>\<open>int\<close> in a comparison or a subtraction:
  \<^verbatim>\<open>bool\<close> is a subclass of \<^verbatim>\<open>int\<close>; \<^verbatim>\<open>None\<close>, \<^verbatim>\<open>str\<close>, \<^verbatim>\<open>list\<close> and \<^verbatim>\<open>dict\<close> raise
  \<^verbatim>\<open>TypeError\<close> (\<open>None\<close> here).
\<close>

definition as_int :: "json \<Rightarrow> int option" where
  "as_int v = (case v of JInt n \<Rightarrow> Some n | JBool b \<Rightarrow> Some (if b then 1 else 0) | other \<Rightarrow> None)"

text \<open>
  What \<^verbatim>\<open>cmd_request\<close> prints, one constructor per message: the plan message, the
  allowlist message with the normalised model name, the cost message, the over-limit
  message with bucket, remaining and requested tokens, and the success message with
  bucket, consumed tokens and remaining tokens.
\<close>

datatype decision =
    DeniedByPlan
  | DeniedUnknownResource string
  | DeniedInvalidCost
  | DeniedOverLimit string int int
  | Admitted string int int

text \<open>A command returns its exit code, or raises; either way it leaves a world behind.\<close>

definition cmd_set_plan :: "world \<Rightarrow> int \<Rightarrow> (error + int) \<times> world" where
  "cmd_set_plan w tokens =
     (if tokens < 0 then (Inr 1, w)
      else case load_state w of
             Inl e \<Rightarrow> (Inl e, w)
           | Inr state \<Rightarrow>
               (case save_state w (dict_set state ''plan_tokens_left'' (JInt tokens)) of
                  (Inl e, w') \<Rightarrow> (Inl e, w')
                | (Inr u, w') \<Rightarrow> (Inr 0, w')))"

definition cmd_reset :: "world \<Rightarrow> (error + int) \<times> world" where
  "cmd_reset w =
     (let state = default_state (today w)
      in case load_state w of
           Inl e \<Rightarrow> (Inl e, w)
         | Inr prev \<Rightarrow>
             (case save_state w
                     (dict_set state ''plan_tokens_left''
                        (dict_get_or prev ''plan_tokens_left'' (JInt 0))) of
                (Inl e, w') \<Rightarrow> (Inl e, w')
              | (Inr u, w') \<Rightarrow> (Inr 0, w')))"

definition cmd_request :: "world \<Rightarrow> string \<Rightarrow> int \<Rightarrow> (error + decision \<times> int) \<times> world" where
  "cmd_request w model_arg tokens =
     (let model = str_lower (str_strip model_arg)
      in case load_state w of
           Inl e \<Rightarrow> (Inl e, w)
         | Inr state \<Rightarrow>
             (case as_int (dict_get_or state ''plan_tokens_left'' (JInt 0)) of
                None \<Rightarrow> (Inl TypeError, w)
              | Some plan \<Rightarrow>
                  if plan > 0 then (Inr (DeniedByPlan, 1), w)
                  else
                    (case bucket_for_model model of
                       None \<Rightarrow> (Inr (DeniedUnknownResource model, 1), w)
                     | Some bucket \<Rightarrow>
                         if tokens \<le> 0 then (Inr (DeniedInvalidCost, 1), w)
                         else
                           (case dict_get state ''buckets'' of
                              None \<Rightarrow> (Inl KeyError, w)
                            | Some (JObj b) \<Rightarrow>
                                (case as_int (dict_get_or b bucket (JInt 0)) of
                                   None \<Rightarrow> (Inl TypeError, w)
                                 | Some remaining \<Rightarrow>
                                     if tokens > remaining
                                     then (Inr (DeniedOverLimit bucket remaining tokens, 1), w)
                                     else
                                       (case save_state w
                                               (dict_set state ''buckets''
                                                  (JObj (dict_set b bucket (JInt (remaining - tokens))))) of
                                          (Inl e, w') \<Rightarrow> (Inl e, w')
                                        | (Inr u, w') \<Rightarrow>
                                            (Inr (Admitted bucket tokens (remaining - tokens), 0), w')))
                            | Some other \<Rightarrow> (Inl AttributeError, w)))))"

section \<open>Notions used in the statements\<close>

text \<open>The inner dictionary after the filling loop: \<^verbatim>\<open>setdefault\<close> for every registry bucket.\<close>

definition fill_missing :: "(string \<times> int) list \<Rightarrow> pydict \<Rightarrow> pydict" where
  "fill_missing ls b = fold (\<lambda>(bucket, limit) acc. dict_setdefault acc bucket (JInt limit)) ls b"

text \<open>
  A state as \<^verbatim>\<open>load_state\<close> returns it: dated today, with a bucket dictionary that has
  every registry bucket, and with the plan field.
\<close>

definition reconciled :: "string \<Rightarrow> pydict \<Rightarrow> bool" where
  "reconciled today_str state =
     (dict_get state ''date'' = Some (JStr today_str) \<and>
      (case dict_get state ''buckets'' of
         Some (JObj b) \<Rightarrow> list_all (\<lambda>(bucket, limit). map_of b bucket \<noteq> None) DAILY_LIMITS
       | other \<Rightarrow> False) \<and>
      dict_get state ''plan_tokens_left'' \<noteq> None)"

text \<open>\<^verbatim>\<open>state.get("plan_tokens_left", 0)\<close> as the integer the comparison with 0 sees.\<close>

definition plan_tokens_left :: "pydict \<Rightarrow> int option" where
  "plan_tokens_left state = as_int (dict_get_or state ''plan_tokens_left'' (JInt 0))"

text \<open>\<^verbatim>\<open>state["buckets"].get(bucket, 0)\<close> as the integer the comparison with the cost sees.\<close>

definition remaining_tokens :: "pydict \<Rightarrow> string \<Rightarrow> int option" where
  "remaining_tokens state bucket =
     (case dict_get state ''buckets'' of
        Some (JObj b) \<Rightarrow> as_int (dict_get_or b bucket (JInt 0))
      | other \<Rightarrow> None)"


text \<open>The decisions that deny.\<close>

definition denied :: "decision \<Rightarrow> bool" where
  "denied dec = (case dec of Admitted bucket used left \<Rightarrow> False | other \<Rightarrow> True)"

subsection \<open>Scenarios\<close>

text \<open>A world on 4 November 2026 in which writes succeed and nothing was saved yet.\<close>

definition scenario_world :: "store \<Rightarrow> world" where
  "scenario_world s = \<lparr>today = ''2026-11-04'', state_file = s, write_fault = None, saves = 0\<rparr>"

text \<open>A record of the day before: 10 tokens left in the small bucket, 500 plan tokens.\<close>

definition yesterday_record :: json where
  "yesterday_record =
     JObj [(''date'', JStr ''2026-11-03''),
           (''buckets'', JObj [(''tokens_250k'', JInt 10), (''tokens_2_5m'', JInt 2500000)]),
           (''plan_tokens_left'', JInt 500)]"

text \<open>A record of today with a drained plan and 10 tokens left in the small bucket.\<close>

definition today_record :: json where
  "today_record =
     JObj [(''date'', JStr ''2026-11-04''),
           (''buckets'', JObj [(''tokens_250k'', JInt 10)]),
           (''plan_tokens_left'', JInt 0)]"

text \<open>A record of the day before with a drained plan.\<close>

definition stale_record :: json where
  "stale_record =
     JObj [(''date'', JStr ''2026-11-03''),
           (''buckets'', JObj [(''tokens_250k'', JInt 10), (''tokens_2_5m'', JInt 2500000)]),
           (''plan_tokens_left'', JInt 0)]"

section \<open>Dictionaries\<close>

lemma map_of_dict_set: "map_of (dict_set d k v) = (map_of d)(k \<mapsto> v)"
  by (induction d) auto

lemma dict_get_dict_set: "dict_get (dict_set d k v) k' = (if k' = k then Some v else dict_get d k')"
  by (simp add: dict_get_def map_of_dict_set)

lemma dict_set_same: "map_of d k = Some v \<Longrightarrow> dict_set d k v = d"
  by (induction d) (auto split: if_splits)

lemma dict_set_twice: "dict_set (dict_set d k v) k v' = dict_set d k v'"
  by (induction d) auto

lemma map_of_dict_setdefault:
  "map_of (dict_setdefault d k v) k' =
     (case map_of d k' of Some x \<Rightarrow> Some x | None \<Rightarrow> if k' = k then Some v else None)"
  by (auto simp: dict_setdefault_def map_add_def split: option.splits)

lemma dict_setdefault_present: "map_of d k = Some x \<Longrightarrow> dict_setdefault d k v = d"
  by (simp add: dict_setdefault_def)

lemma fill_missing_Nil: "fill_missing [] b = b"
  by (simp add: fill_missing_def)

lemma fill_missing_Cons:
  "fill_missing ((bucket, limit) # rest) b = fill_missing rest (dict_setdefault b bucket (JInt limit))"
  by (simp add: fill_missing_def)

lemma map_of_fill_missing:
  "map_of (fill_missing ls b) k =
     (case map_of b k of Some v \<Rightarrow> Some v | None \<Rightarrow> map_option JInt (map_of ls k))"
proof (induction ls arbitrary: b)
  case Nil
  show ?case by (simp add: fill_missing_Nil split: option.splits)
next
  case (Cons p rest)
  obtain bucket limit where p: "p = (bucket, limit)" by (cases p)
  show ?case
    by (simp add: p fill_missing_Cons Cons.IH map_of_dict_setdefault split: option.splits)
qed

lemma fill_missing_present:
  "list_all (\<lambda>(bucket, limit). map_of b bucket \<noteq> None) ls \<Longrightarrow> fill_missing ls b = b"
proof (induction ls)
  case Nil
  show ?case by (simp add: fill_missing_Nil)
next
  case (Cons p rest)
  obtain bucket limit where p: "p = (bucket, limit)" by (cases p)
  from Cons.prems obtain x where x: "map_of b bucket = Some x" by (auto simp: p)
  from Cons show ?case
    by (simp add: p fill_missing_Cons dict_setdefault_present [OF x])
qed

lemma fill_missing_covers:
  "list_all (\<lambda>(bucket, limit). map_of (fill_missing ls b) bucket \<noteq> None) ls"
  by (auto simp: list_all_iff map_of_fill_missing weak_map_of_SomeI map_of_eq_None_iff
      split: option.splits)

lemma fill_buckets_object:
  "dict_get state ''buckets'' = Some (JObj b) \<Longrightarrow>
   fill_buckets ls state = Inr (dict_set state ''buckets'' (JObj (fill_missing ls b)))"
proof (induction ls arbitrary: state b)
  case Nil
  then show ?case by (simp add: fill_missing_Nil dict_set_same dict_get_def)
next
  case (Cons p rest)
  obtain bucket limit where p: "p = (bucket, limit)" by (cases p)
  let ?b = "dict_setdefault b bucket (JInt limit)"
  have "dict_get (dict_set state ''buckets'' (JObj ?b)) ''buckets'' = Some (JObj ?b)"
    by (simp add: dict_get_dict_set)
  from Cons.IH [OF this] Cons.prems show ?case
    by (simp add: p fill_missing_Cons dict_set_twice)
qed

lemma fill_buckets_missing:
  "dict_get state ''buckets'' = None \<Longrightarrow> ls \<noteq> [] \<Longrightarrow> fill_buckets ls state = Inl KeyError"
  by (cases ls) auto

lemma fill_buckets_other:
  "dict_get state ''buckets'' = Some v \<Longrightarrow> \<forall>b. v \<noteq> JObj b \<Longrightarrow> ls \<noteq> [] \<Longrightarrow>
   fill_buckets ls state = Inl AttributeError"
  by (cases ls; cases v) auto

lemma rollover_fixed: "reconciled d state \<Longrightarrow> rollover d (JObj state) = Inr state"
proof -
  assume r: "reconciled d state"
  then obtain b where b: "dict_get state ''buckets'' = Some (JObj b)"
    and cov: "list_all (\<lambda>(bucket, limit). map_of b bucket \<noteq> None) DAILY_LIMITS"
    by (auto simp: reconciled_def split: option.splits json.splits)
  from r obtain p where p: "map_of state ''plan_tokens_left'' = Some p"
    by (auto simp: reconciled_def dict_get_def)
  from r have dt: "dict_get state ''date'' = Some (JStr d)" by (simp add: reconciled_def)
  have s2: "dict_setdefault state ''buckets'' (JObj (limits_copy DAILY_LIMITS)) = state"
    using b by (simp add: dict_get_def dict_setdefault_present)
  have fb: "fill_buckets DAILY_LIMITS state = Inr state"
    using b by (simp add: fill_buckets_object fill_missing_present [OF cov] dict_set_same dict_get_def)
  show ?thesis
    by (simp add: rollover_def dt s2 fb dict_setdefault_present [OF p])
qed

section \<open>Rollover\<close>

lemma limits_filled: "fill_missing DAILY_LIMITS (limits_copy DAILY_LIMITS) = limits_copy DAILY_LIMITS"
  by (rule fill_missing_present) (simp add: DAILY_LIMITS_def limits_copy_def)

lemma rollover_stale:
  assumes "dict_get raw ''date'' \<noteq> Some (JStr d)"
  shows "rollover d (JObj raw) =
           Inr [(''date'', JStr d),
                (''buckets'', JObj (limits_copy DAILY_LIMITS)),
                (''plan_tokens_left'', dict_get_or raw ''plan_tokens_left'' (JInt 0))]"
proof -
  let ?s = "[(''date'', JStr d), (''buckets'', JObj (limits_copy DAILY_LIMITS)),
             (''plan_tokens_left'', dict_get_or raw ''plan_tokens_left'' (JInt 0))]"
  have s1: "dict_set (default_state d) ''plan_tokens_left''
              (dict_get_or raw ''plan_tokens_left'' (JInt 0)) = ?s"
    by (simp add: default_state_def)
  have s2: "dict_setdefault ?s ''buckets'' (JObj (limits_copy DAILY_LIMITS)) = ?s"
    by (simp add: dict_setdefault_def)
  have g: "dict_get ?s ''buckets'' = Some (JObj (limits_copy DAILY_LIMITS))"
    by (simp add: dict_get_def)
  have fb: "fill_buckets DAILY_LIMITS ?s = Inr ?s"
    by (simp add: fill_buckets_object [OF g] limits_filled)
  have s3: "dict_setdefault ?s ''plan_tokens_left'' (JInt 0) = ?s"
    by (simp add: dict_setdefault_def)
  show ?thesis
    using assms by (simp add: rollover_def s1 s2 fb s3 del: fill_buckets.simps)
qed

lemma rollover_same_day:
  assumes "dict_get raw ''date'' = Some (JStr d)"
    and "dict_get raw ''buckets'' = Some (JObj b)"
  shows "rollover d (JObj raw) =
           Inr (dict_setdefault (dict_set raw ''buckets'' (JObj (fill_missing DAILY_LIMITS b)))
                  ''plan_tokens_left'' (JInt 0))"
proof -
  have s2: "dict_setdefault raw ''buckets'' (JObj (limits_copy DAILY_LIMITS)) = raw"
    using assms(2) by (simp add: dict_get_def dict_setdefault_present)
  show ?thesis
    using assms(1) by (simp add: rollover_def s2 fill_buckets_object [OF assms(2)])
qed

lemma rollover_same_day_no_buckets:
  assumes "dict_get raw ''date'' = Some (JStr d)"
    and "dict_get raw ''buckets'' = None"
  shows "rollover d (JObj raw) =
           Inr (dict_setdefault (raw @ [(''buckets'', JObj (limits_copy DAILY_LIMITS))])
                  ''plan_tokens_left'' (JInt 0))"
proof -
  let ?s = "raw @ [(''buckets'', JObj (limits_copy DAILY_LIMITS))]"
  have s2: "dict_setdefault raw ''buckets'' (JObj (limits_copy DAILY_LIMITS)) = ?s"
    using assms(2) by (simp add: dict_get_def dict_setdefault_def)
  have g: "dict_get ?s ''buckets'' = Some (JObj (limits_copy DAILY_LIMITS))"
    using assms(2) by (simp add: dict_get_def map_add_def)
  have m: "map_of ?s ''buckets'' = Some (JObj (limits_copy DAILY_LIMITS))"
    using g by (simp add: dict_get_def)
  have fb: "fill_buckets DAILY_LIMITS ?s = Inr ?s"
    by (simp add: fill_buckets_object [OF g] limits_filled dict_set_same [OF m])
  show ?thesis
    using assms(1) by (simp add: rollover_def s2 fb)
qed

lemma rollover_same_day_bad_buckets:
  assumes "dict_get raw ''date'' = Some (JStr d)"
    and "dict_get raw ''buckets'' = Some v" and "\<forall>b. v \<noteq> JObj b"
  shows "rollover d (JObj raw) = Inl AttributeError"
proof -
  have s2: "dict_setdefault raw ''buckets'' (JObj (limits_copy DAILY_LIMITS)) = raw"
    using assms(2) by (simp add: dict_get_def dict_setdefault_present)
  have "fill_buckets DAILY_LIMITS raw = Inl AttributeError"
    by (rule fill_buckets_other [OF assms(2,3)]) (simp add: DAILY_LIMITS_def)
  then show ?thesis
    using assms(1) by (simp add: rollover_def s2)
qed

lemma reconciled_setdefault_plan:
  assumes "dict_get s ''date'' = Some (JStr d)"
    and "dict_get s ''buckets'' = Some (JObj b)"
    and "list_all (\<lambda>(bucket, limit). map_of b bucket \<noteq> None) DAILY_LIMITS"
  shows "reconciled d (dict_setdefault s ''plan_tokens_left'' (JInt 0))"
  using assms
  by (simp add: reconciled_def dict_get_def map_of_dict_setdefault split: option.splits)

lemma rollover_reconciled:
  assumes "rollover d raw = Inr state"
  shows "reconciled d state"
proof (cases raw)
  case (JObj s)
  show ?thesis
  proof (cases "dict_get s ''date'' = Some (JStr d)")
    case False
    from rollover_stale [OF False] assms JObj show ?thesis
      by (auto simp: reconciled_def dict_get_def DAILY_LIMITS_def limits_copy_def)
  next
    case True
    show ?thesis
    proof (cases "dict_get s ''buckets''")
      case None
      from rollover_same_day_no_buckets [OF True None] assms JObj
      have st: "state = dict_setdefault (s @ [(''buckets'', JObj (limits_copy DAILY_LIMITS))])
                  ''plan_tokens_left'' (JInt 0)" by simp
      show ?thesis unfolding st
        by (rule reconciled_setdefault_plan [where b = "limits_copy DAILY_LIMITS"])
           (use True None in \<open>auto simp: dict_get_def map_add_def DAILY_LIMITS_def limits_copy_def\<close>)
    next
      case (Some v)
      show ?thesis
      proof (cases "\<exists>b. v = JObj b")
        case False
        with rollover_same_day_bad_buckets [OF True Some] assms JObj show ?thesis by simp
      next
        case True
        then obtain b where v: "v = JObj b" by blast
        from rollover_same_day [OF \<open>dict_get s ''date'' = Some (JStr d)\<close> Some [unfolded v]] assms JObj
        have st: "state = dict_setdefault (dict_set s ''buckets'' (JObj (fill_missing DAILY_LIMITS b)))
                  ''plan_tokens_left'' (JInt 0)" by simp
        have dt: "dict_get (dict_set s ''buckets'' (JObj (fill_missing DAILY_LIMITS b))) ''date''
                    = Some (JStr d)"
          using \<open>dict_get s ''date'' = Some (JStr d)\<close> by (simp add: dict_get_dict_set)
        have bk: "dict_get (dict_set s ''buckets'' (JObj (fill_missing DAILY_LIMITS b))) ''buckets''
                    = Some (JObj (fill_missing DAILY_LIMITS b))"
          by (simp add: dict_get_dict_set)
        show ?thesis unfolding st
          by (rule reconciled_setdefault_plan [OF dt bk fill_missing_covers])
      qed
    qed
  qed
qed (use assms in \<open>simp_all add: rollover_def\<close>)

text \<open>
  Claim C4. The rollover policy is idempotent: applying it to its own result, for the
  same date, gives that result again; where the first application raises, nothing is
  applied a second time and the error stays.
\<close>

theorem rollover_idempotent:
  "(case rollover d raw of Inl e \<Rightarrow> Inl e | Inr state \<Rightarrow> rollover d (JObj state)) = rollover d raw"
proof (cases "rollover d raw")
  case (Inl e)
  then show ?thesis by simp
next
  case (Inr state)
  then have "rollover d (JObj state) = Inr state"
    by (intro rollover_fixed rollover_reconciled)
  with Inr show ?thesis by simp
qed

theorem rollover_idempotent_witness:
  "(case rollover ''2026-11-04''
           (JObj [(''date'', JStr ''2026-11-03''),
                  (''buckets'', JObj [(''tokens_250k'', JInt 10)]),
                  (''plan_tokens_left'', JInt 500)]) of
      Inl e \<Rightarrow> Inl e
    | Inr state \<Rightarrow> rollover ''2026-11-04'' (JObj state)) =
   Inr [(''date'', JStr ''2026-11-04''),
        (''buckets'', JObj [(''tokens_250k'', JInt 250000), (''tokens_2_5m'', JInt 2500000)]),
        (''plan_tokens_left'', JInt 500)]"
proof -
  let ?raw = "JObj [(''date'', JStr ''2026-11-03''),
                    (''buckets'', JObj [(''tokens_250k'', JInt 10)]),
                    (''plan_tokens_left'', JInt 500)]"
  have "(case rollover ''2026-11-04'' ?raw of
           Inl e \<Rightarrow> Inl e
         | Inr state \<Rightarrow> rollover ''2026-11-04'' (JObj state)) = rollover ''2026-11-04'' ?raw"
    by (rule rollover_idempotent)
  also have "\<dots> = Inr [(''date'', JStr ''2026-11-04''),
        (''buckets'', JObj [(''tokens_250k'', JInt 250000), (''tokens_2_5m'', JInt 2500000)]),
        (''plan_tokens_left'', JInt 500)]"
    by (simp add: rollover_def default_state_def DAILY_LIMITS_def limits_copy_def dict_get_def
        dict_get_or_def dict_setdefault_def)
  finally show ?thesis .
qed

section \<open>The commands\<close>

lemma reconciled_default: "reconciled d (default_state d)"
  by (simp add: reconciled_def default_state_def dict_get_def DAILY_LIMITS_def limits_copy_def)

lemma load_state_reconciled: "load_state w = Inr state \<Longrightarrow> reconciled (today w) state"
  by (cases "state_file w")
     (auto simp: load_state_def reconciled_default intro: rollover_reconciled)

lemma reconciled_buckets:
  "reconciled d state \<Longrightarrow> \<exists>b. dict_get state ''buckets'' = Some (JObj b)"
  by (auto simp: reconciled_def split: option.splits json.splits)

lemma save_state_reconciled:
  assumes "reconciled (today w) state" and "write_fault w = None"
  shows "save_state w state =
           (Inr (), w\<lparr>state_file := Stored (JObj state), saves := Suc (saves w)\<rparr>)"
proof -
  from assms(1) have "map_of state ''date'' = Some (JStr (today w))"
    by (simp add: reconciled_def dict_get_def)
  then have "dict_set state ''date'' (JStr (today w)) = state"
    by (rule dict_set_same)
  with assms(2) show ?thesis by (simp add: save_state_def)
qed

lemma load_state_stored_reconciled:
  "reconciled (today w) state \<Longrightarrow> load_state (w\<lparr>state_file := Stored (JObj state), saves := n\<rparr>) = Inr state"
  by (simp add: load_state_def rollover_fixed)

lemma reconciled_set_plan:
  "reconciled d state \<Longrightarrow> reconciled d (dict_set state ''plan_tokens_left'' v)"
  by (simp add: reconciled_def dict_get_dict_set)

lemma reconciled_set_balance:
  assumes "reconciled d state" and "dict_get state ''buckets'' = Some (JObj b)"
  shows "reconciled d (dict_set state ''buckets'' (JObj (dict_set b bucket v)))"
proof -
  from assms have "list_all (\<lambda>(bucket, limit). map_of b bucket \<noteq> None) DAILY_LIMITS"
    by (simp add: reconciled_def)
  then have "list_all (\<lambda>(k, limit). map_of (dict_set b bucket v) k \<noteq> None) DAILY_LIMITS"
    by (auto simp: list_all_iff map_of_dict_set)
  with assms(1) show ?thesis
    by (simp add: reconciled_def dict_get_dict_set)
qed

lemma cmd_request_by_plan:
  assumes "load_state w = Inr state" and "plan_tokens_left state = Some plan" and "0 < plan"
  shows "cmd_request w model tokens = (Inr (DeniedByPlan, 1), w)"
  using assms by (simp add: cmd_request_def plan_tokens_left_def)

lemma cmd_request_unknown:
  assumes "load_state w = Inr state" and "plan_tokens_left state = Some plan" and "plan \<le> 0"
    and "bucket_for_model (str_lower (str_strip model)) = None"
  shows "cmd_request w model tokens =
           (Inr (DeniedUnknownResource (str_lower (str_strip model)), 1), w)"
  using assms by (simp add: cmd_request_def plan_tokens_left_def)

lemma cmd_request_invalid_cost:
  assumes "load_state w = Inr state" and "plan_tokens_left state = Some plan" and "plan \<le> 0"
    and "bucket_for_model (str_lower (str_strip model)) = Some bucket" and "tokens \<le> 0"
  shows "cmd_request w model tokens = (Inr (DeniedInvalidCost, 1), w)"
  using assms by (simp add: cmd_request_def plan_tokens_left_def)

lemma remaining_tokensD:
  assumes "remaining_tokens state bucket = Some r"
  obtains b where "dict_get state ''buckets'' = Some (JObj b)"
    and "as_int (dict_get_or b bucket (JInt 0)) = Some r"
  using assms by (auto simp: remaining_tokens_def split: option.splits json.splits)

lemma cmd_request_over_limit:
  assumes "load_state w = Inr state" and "plan_tokens_left state = Some plan" and "plan \<le> 0"
    and "bucket_for_model (str_lower (str_strip model)) = Some bucket" and "0 < tokens"
    and "remaining_tokens state bucket = Some r" and "r < tokens"
  shows "cmd_request w model tokens = (Inr (DeniedOverLimit bucket r tokens, 1), w)"
proof -
  from assms(6) obtain b where "dict_get state ''buckets'' = Some (JObj b)"
    and "as_int (dict_get_or b bucket (JInt 0)) = Some r"
    by (rule remaining_tokensD)
  with assms show ?thesis by (simp add: cmd_request_def plan_tokens_left_def)
qed

lemma cmd_request_admitted:
  assumes "load_state w = Inr state" and "plan_tokens_left state = Some plan" and "plan \<le> 0"
    and "bucket_for_model (str_lower (str_strip model)) = Some bucket" and "0 < tokens"
    and "dict_get state ''buckets'' = Some (JObj b)"
    and "as_int (dict_get_or b bucket (JInt 0)) = Some r" and "tokens \<le> r"
    and "write_fault w = None"
  shows "cmd_request w model tokens =
           (Inr (Admitted bucket tokens (r - tokens), 0),
            w\<lparr>state_file :=
                 Stored (JObj (dict_set state ''buckets'' (JObj (dict_set b bucket (JInt (r - tokens)))))),
              saves := Suc (saves w)\<rparr>)"
proof -
  have "reconciled (today w) (dict_set state ''buckets'' (JObj (dict_set b bucket (JInt (r - tokens)))))"
    by (rule reconciled_set_balance [OF load_state_reconciled [OF assms(1)] assms(6)])
  from save_state_reconciled [OF this assms(9)] assms show ?thesis
    by (simp add: cmd_request_def plan_tokens_left_def)
qed

lemma save_state_saves: "saves (snd (save_state w state)) = Suc (saves w)"
  by (simp add: save_state_def split: option.splits)

lemma save_state_cases:
  obtains w' where "save_state w state = (Inl IOError, w')" "saves w' = Suc (saves w)"
  | w' where "save_state w state = (Inr (), w')" "saves w' = Suc (saves w)"
  by (cases "write_fault w") (auto simp: save_state_def)

lemma cmd_request_cases:
  obtains e where "cmd_request w model tokens = (Inl e, w)"
  | dec where "cmd_request w model tokens = (Inr (dec, 1), w)" "denied dec"
  | w' where "cmd_request w model tokens = (Inl IOError, w')" "saves w' = Suc (saves w)"
  | bucket r w' where "cmd_request w model tokens = (Inr (Admitted bucket tokens (r - tokens), 0), w')"
      "saves w' = Suc (saves w)"
proof (cases "load_state w")
  case (Inl e)
  then show ?thesis using that(1) by (simp add: cmd_request_def)
next
  case (Inr state)
  note st = this
  show ?thesis
  proof (cases "as_int (dict_get_or state ''plan_tokens_left'' (JInt 0))")
    case None
    with st show ?thesis using that(1) by (simp add: cmd_request_def)
  next
    case (Some plan)
    note pl = this
    show ?thesis
    proof (cases "0 < plan")
      case True
      with st pl show ?thesis using that(2) [of DeniedByPlan]
        by (simp add: cmd_request_def denied_def)
    next
      case False
      note np = this
      show ?thesis
      proof (cases "bucket_for_model (str_lower (str_strip model))")
        case None
        with st pl np show ?thesis
          using that(2) [of "DeniedUnknownResource (str_lower (str_strip model))"]
          by (simp add: cmd_request_def denied_def)
      next
        case (Some bucket)
        note bk = this
        show ?thesis
        proof (cases "tokens \<le> 0")
          case True
          with st pl np bk show ?thesis using that(2) [of DeniedInvalidCost]
            by (simp add: cmd_request_def denied_def)
        next
          case False
          note pos = this
          show ?thesis
          proof (cases "dict_get state ''buckets''")
            case None
            with st pl np bk pos show ?thesis using that(1) by (simp add: cmd_request_def)
          next
            case (Some v)
            note bv = this
            show ?thesis
            proof (cases "\<exists>b. v = JObj b")
              case False
              with st pl np bk pos bv show ?thesis using that(1) [of AttributeError]
                by (cases v) (simp_all add: cmd_request_def)
            next
              case True
              then obtain b where v: "v = JObj b" by blast
              show ?thesis
              proof (cases "as_int (dict_get_or b bucket (JInt 0))")
                case None
                with st pl np bk pos bv v show ?thesis using that(1)
                  by (simp add: cmd_request_def)
              next
                case (Some r)
                note rem = this
                show ?thesis
                proof (cases "r < tokens")
                  case True
                  with st pl np bk pos bv v rem show ?thesis
                    using that(2) [of "DeniedOverLimit bucket r tokens"]
                    by (simp add: cmd_request_def denied_def)
                next
                  case False
                  let ?s = "dict_set state ''buckets'' (JObj (dict_set b bucket (JInt (r - tokens))))"
                  show ?thesis
                  proof (rule save_state_cases [of w ?s])
                    fix w' assume "save_state w ?s = (Inl IOError, w')" "saves w' = Suc (saves w)"
                    with st pl np bk pos bv v rem False show ?thesis using that(3) [of w']
                      by (simp add: cmd_request_def)
                  next
                    fix w' assume "save_state w ?s = (Inr (), w')" "saves w' = Suc (saves w)"
                    with st pl np bk pos bv v rem False show ?thesis using that(4) [of bucket r w']
                      by (simp add: cmd_request_def)
                  qed
                qed
              qed
            qed
          qed
        qed
      qed
    qed
  qed
qed

section \<open>Model names\<close>

lemma isspace_lower_char: "isspace (lower_char c) = isspace c"
  unfolding lower_char_def isspace_def Let_def
  by (auto simp: of_char_of [where ?'a = nat] simp del: of_char_of)

lemma lower_char_idem: "lower_char (lower_char c) = lower_char c"
  unfolding lower_char_def Let_def
  by (auto simp: of_char_of [where ?'a = nat] simp del: of_char_of)

lemma dropWhile_isspace_lower:
  "dropWhile isspace (map lower_char s) = map lower_char (dropWhile isspace s)"
  by (induction s) (simp_all add: isspace_lower_char)

lemma str_strip_lower: "str_strip (str_lower s) = str_lower (str_strip s)"
  by (simp add: str_strip_def str_lower_def dropWhile_isspace_lower rev_map)

lemma str_lower_idem: "str_lower (str_lower s) = str_lower s"
  by (simp add: str_lower_def lower_char_idem)

lemma dropWhile_twice: "dropWhile P (dropWhile P s) = dropWhile P s"
  by (induction s) simp_all

lemma str_strip_idem: "str_strip (str_strip s) = str_strip s"
proof -
  define a where "a = dropWhile isspace s"
  define t where "t = rev (dropWhile isspace (rev a))"
  have split: "a = t @ rev (takeWhile isspace (rev a))"
  proof -
    have "rev (takeWhile isspace (rev a) @ dropWhile isspace (rev a)) = rev (rev a)"
      by (simp only: takeWhile_dropWhile_id)
    then have "rev (dropWhile isspace (rev a)) @ rev (takeWhile isspace (rev a)) = a"
      by (simp only: rev_append rev_rev_ident)
    then show ?thesis by (simp only: t_def)
  qed
  have lead: "dropWhile isspace t = t"
  proof (cases t)
    case Nil
    then show ?thesis by simp
  next
    case (Cons x xs)
    with split have "dropWhile isspace s = x # (xs @ rev (takeWhile isspace (rev a)))"
      by (simp add: a_def)
    then have "\<not> isspace x" by (simp add: dropWhile_eq_Cons_conv)
    with Cons show ?thesis by simp
  qed
  have "str_strip t = rev (dropWhile isspace (rev t))"
    by (simp add: str_strip_def lead)
  also have "\<dots> = t" by (simp add: t_def dropWhile_twice)
  finally show ?thesis by (simp add: str_strip_def t_def a_def)
qed

lemma normalise_idem:
  "str_lower (str_strip (str_lower (str_strip s))) = str_lower (str_strip s)"
  by (simp add: str_strip_lower str_lower_idem str_strip_idem)

section \<open>Balances\<close>

lemma cmd_request_admittedD:
  assumes "cmd_request w model tokens = (Inr (Admitted bucket used left, code), w')"
  shows "\<exists>state b r plan.
           load_state w = Inr state \<and> plan_tokens_left state = Some plan \<and> plan \<le> 0 \<and>
           bucket_for_model (str_lower (str_strip model)) = Some bucket \<and> 0 < tokens \<and>
           dict_get state ''buckets'' = Some (JObj b) \<and>
           as_int (dict_get_or b bucket (JInt 0)) = Some r \<and> tokens \<le> r \<and>
           write_fault w = None \<and> used = tokens \<and> left = r - tokens \<and> code = 0"
  using assms
  by (auto simp: cmd_request_def Let_def save_state_def plan_tokens_left_def
      split: sum.splits option.splits if_splits json.splits prod.splits)






section \<open>Admission\<close>

text \<open>
  Claim C1. On a loaded state whose plan field is a number, \<^verbatim>\<open>cmd_request\<close> checks in a
  fixed order: the plan allowance, then the allowlist, then the sign of the cost, then the
  balance. Each earlier check decides the outcome whatever the later ones would say, and
  each call that returns gives one decision. \<^verbatim>\<open>save_state\<close> is called at most once, and
  only on the path that admits the request (where the call returns \<^verbatim>\<open>Admitted\<close>, or the
  write raises \<^verbatim>\<open>IOError\<close>).
\<close>

theorem request_check_order:
  assumes "load_state w = Inr state" and "plan_tokens_left state = Some plan"
  shows
   "(0 < plan \<longrightarrow> cmd_request w model tokens = (Inr (DeniedByPlan, 1), w)) \<and>
    (plan \<le> 0 \<and> bucket_for_model (str_lower (str_strip model)) = None \<longrightarrow>
       cmd_request w model tokens =
         (Inr (DeniedUnknownResource (str_lower (str_strip model)), 1), w)) \<and>
    (plan \<le> 0 \<and> bucket_for_model (str_lower (str_strip model)) = Some bucket \<and> tokens \<le> 0 \<longrightarrow>
       cmd_request w model tokens = (Inr (DeniedInvalidCost, 1), w)) \<and>
    (plan \<le> 0 \<and> bucket_for_model (str_lower (str_strip model)) = Some bucket \<and> 0 < tokens \<and>
     remaining_tokens state bucket = Some r \<and> r < tokens \<longrightarrow>
       cmd_request w model tokens = (Inr (DeniedOverLimit bucket r tokens, 1), w)) \<and>
    (plan \<le> 0 \<and> bucket_for_model (str_lower (str_strip model)) = Some bucket \<and> 0 < tokens \<and>
     remaining_tokens state bucket = Some r \<and> tokens \<le> r \<and> write_fault w = None \<longrightarrow>
       fst (cmd_request w model tokens) = Inr (Admitted bucket tokens (r - tokens), 0) \<and>
       saves (snd (cmd_request w model tokens)) = Suc (saves w)) \<and>
    saves (snd (cmd_request w model tokens)) \<le> Suc (saves w) \<and>
    (saves (snd (cmd_request w model tokens)) \<noteq> saves w \<longrightarrow>
       fst (cmd_request w model tokens) = Inl IOError \<or>
       (\<exists>b left. fst (cmd_request w model tokens) = Inr (Admitted b tokens left, 0)))"
proof -
  note l = assms(1) and p = assms(2)
  have c1: "0 < plan \<longrightarrow> cmd_request w model tokens = (Inr (DeniedByPlan, 1), w)"
    using cmd_request_by_plan [OF l p] by simp
  have c2: "plan \<le> 0 \<and> bucket_for_model (str_lower (str_strip model)) = None \<longrightarrow>
       cmd_request w model tokens =
         (Inr (DeniedUnknownResource (str_lower (str_strip model)), 1), w)"
    using cmd_request_unknown [OF l p] by simp
  have c3: "plan \<le> 0 \<and> bucket_for_model (str_lower (str_strip model)) = Some bucket \<and> tokens \<le> 0 \<longrightarrow>
       cmd_request w model tokens = (Inr (DeniedInvalidCost, 1), w)"
    using cmd_request_invalid_cost [OF l p] by simp
  have c4: "plan \<le> 0 \<and> bucket_for_model (str_lower (str_strip model)) = Some bucket \<and> 0 < tokens \<and>
     remaining_tokens state bucket = Some r \<and> r < tokens \<longrightarrow>
       cmd_request w model tokens = (Inr (DeniedOverLimit bucket r tokens, 1), w)"
    using cmd_request_over_limit [OF l p] by simp
  have c5: "plan \<le> 0 \<and> bucket_for_model (str_lower (str_strip model)) = Some bucket \<and> 0 < tokens \<and>
     remaining_tokens state bucket = Some r \<and> tokens \<le> r \<and> write_fault w = None \<longrightarrow>
       fst (cmd_request w model tokens) = Inr (Admitted bucket tokens (r - tokens), 0) \<and>
       saves (snd (cmd_request w model tokens)) = Suc (saves w)"
  proof (intro impI, elim conjE)
    assume a: "plan \<le> 0" "bucket_for_model (str_lower (str_strip model)) = Some bucket"
      "0 < tokens" "remaining_tokens state bucket = Some r" "tokens \<le> r" "write_fault w = None"
    from a(4) obtain b where b: "dict_get state ''buckets'' = Some (JObj b)"
      and r: "as_int (dict_get_or b bucket (JInt 0)) = Some r"
      by (rule remaining_tokensD)
    from cmd_request_admitted [OF l p a(1) a(2) a(3) b r a(5) a(6)]
    show "fst (cmd_request w model tokens) = Inr (Admitted bucket tokens (r - tokens), 0) \<and>
       saves (snd (cmd_request w model tokens)) = Suc (saves w)"
      by simp
  qed
  have c6: "saves (snd (cmd_request w model tokens)) \<le> Suc (saves w)"
    by (rule cmd_request_cases [of w model tokens]) simp_all
  have c7: "saves (snd (cmd_request w model tokens)) \<noteq> saves w \<longrightarrow>
       fst (cmd_request w model tokens) = Inl IOError \<or>
       (\<exists>b left. fst (cmd_request w model tokens) = Inr (Admitted b tokens left, 0))"
    by (rule cmd_request_cases [of w model tokens]) simp_all
  from c1 c2 c3 c4 c5 c6 c7 show ?thesis by (intro conjI)
qed

theorem request_check_order_witness:
  "cmd_request (scenario_world (Stored yesterday_record)) ''gpt-1'' 0 =
     (Inr (DeniedByPlan, 1), scenario_world (Stored yesterday_record)) \<and>
   cmd_request (scenario_world (Stored today_record)) ''gpt-1'' 0 =
     (Inr (DeniedUnknownResource ''gpt-1'', 1), scenario_world (Stored today_record)) \<and>
   cmd_request (scenario_world (Stored today_record)) ''gpt-5'' 0 =
     (Inr (DeniedInvalidCost, 1), scenario_world (Stored today_record)) \<and>
   cmd_request (scenario_world (Stored today_record)) ''gpt-5'' 11 =
     (Inr (DeniedOverLimit ''tokens_250k'' 10 11, 1), scenario_world (Stored today_record)) \<and>
   fst (cmd_request (scenario_world (Stored today_record)) ''gpt-5'' 10) =
     Inr (Admitted ''tokens_250k'' 10 0, 0) \<and>
   saves (snd (cmd_request (scenario_world (Stored today_record)) ''gpt-5'' 10)) = 1"
proof -
  let ?W1 = "scenario_world (Stored yesterday_record)"
  let ?S1 = "[(''date'', JStr ''2026-11-04''),
              (''buckets'', JObj [(''tokens_250k'', JInt 250000), (''tokens_2_5m'', JInt 2500000)]),
              (''plan_tokens_left'', JInt 500)]"
  let ?W0 = "scenario_world (Stored today_record)"
  let ?S0 = "[(''date'', JStr ''2026-11-04''),
              (''buckets'', JObj [(''tokens_250k'', JInt 10), (''tokens_2_5m'', JInt 2500000)]),
              (''plan_tokens_left'', JInt 0)]"
  have l1: "load_state ?W1 = Inr ?S1" by code_simp
  have p1: "plan_tokens_left ?S1 = Some 500" by code_simp
  have l0: "load_state ?W0 = Inr ?S0" by code_simp
  have p0: "plan_tokens_left ?S0 = Some 0" by code_simp
  have r0: "remaining_tokens ?S0 ''tokens_250k'' = Some 10" by code_simp
  have wf: "write_fault ?W0 = None" by code_simp
  have sv: "saves ?W0 = 0" by code_simp
  have n1: "str_lower (str_strip ''gpt-1'') = ''gpt-1''" by code_simp
  have n5: "str_lower (str_strip ''gpt-5'') = ''gpt-5''" by code_simp
  have b1: "bucket_for_model ''gpt-1'' = None" by code_simp
  have b5: "bucket_for_model ''gpt-5'' = Some ''tokens_250k''" by code_simp
  have g1: "cmd_request ?W1 ''gpt-1'' 0 = (Inr (DeniedByPlan, 1), ?W1)"
    using request_check_order [OF l1 p1, where model = "''gpt-1''" and tokens = 0] by simp
  have g2: "cmd_request ?W0 ''gpt-1'' 0 = (Inr (DeniedUnknownResource ''gpt-1'', 1), ?W0)"
    using request_check_order [OF l0 p0, where model = "''gpt-1''" and tokens = 0] by (simp add: n1 b1)
  have g3: "cmd_request ?W0 ''gpt-5'' 0 = (Inr (DeniedInvalidCost, 1), ?W0)"
    using request_check_order [OF l0 p0, where model = "''gpt-5''" and tokens = 0 and bucket = "''tokens_250k''"] by (simp add: n5 b5)
  have g4: "cmd_request ?W0 ''gpt-5'' 11 = (Inr (DeniedOverLimit ''tokens_250k'' 10 11, 1), ?W0)"
    using request_check_order [OF l0 p0, where model = "''gpt-5''" and tokens = 11 and bucket = "''tokens_250k''" and r = 10]
    by (simp add: n5 b5 r0)
  have g5: "fst (cmd_request ?W0 ''gpt-5'' 10) = Inr (Admitted ''tokens_250k'' 10 0, 0) \<and>
            saves (snd (cmd_request ?W0 ''gpt-5'' 10)) = 1"
    using request_check_order [OF l0 p0, where model = "''gpt-5''" and tokens = 10 and bucket = "''tokens_250k''" and r = 10]
    by (simp add: n5 b5 r0 wf sv)
  from g1 g2 g3 g4 g5 show ?thesis by (intro conjI) simp_all
qed

text \<open>
  Claim C2. If the loaded state has a positive number of plan tokens, every request is
  denied by the plan with exit code 1, for every model name (known or not) and every cost
  (positive or not), and the world is unchanged: no balance changes, nothing is saved.
\<close>

theorem plan_allowance_short_circuit:
  assumes "load_state w = Inr state" and "plan_tokens_left state = Some plan" and "0 < plan"
  shows "cmd_request w model tokens = (Inr (DeniedByPlan, 1), w)"
  using assms by (rule cmd_request_by_plan)

theorem plan_allowance_short_circuit_witness:
  "load_state (scenario_world (Stored yesterday_record)) =
     Inr [(''date'', JStr ''2026-11-04''),
          (''buckets'', JObj [(''tokens_250k'', JInt 250000), (''tokens_2_5m'', JInt 2500000)]),
          (''plan_tokens_left'', JInt 500)] \<and>
   cmd_request (scenario_world (Stored yesterday_record)) ''no-such-model'' (- 3) =
     (Inr (DeniedByPlan, 1), scenario_world (Stored yesterday_record))"
proof -
  let ?W1 = "scenario_world (Stored yesterday_record)"
  let ?S1 = "[(''date'', JStr ''2026-11-04''),
              (''buckets'', JObj [(''tokens_250k'', JInt 250000), (''tokens_2_5m'', JInt 2500000)]),
              (''plan_tokens_left'', JInt 500)]"
  have l1: "load_state ?W1 = Inr ?S1" by code_simp
  have p1: "plan_tokens_left ?S1 = Some 500" by code_simp
  have pos: "(0::int) < 500" by simp
  from l1 plan_allowance_short_circuit [OF l1 p1 pos, where model = "''no-such-model''" and tokens = "- 3"]
  show ?thesis by simp
qed

text \<open>
  Claim C10. A request that is denied leaves the world as it was, state file included, and
  returns exit code 1. \<^verbatim>\<open>load_state\<close> only reads the world, so a rollover it did in memory
  is not written by a denied request: the file keeps its old date and balances.
\<close>

theorem denial_leaves_world:
  assumes "cmd_request w model tokens = (Inr (dec, code), w')" and "denied dec"
  shows "w' = w \<and> code = 1"
proof (rule cmd_request_cases [of w model tokens])
  fix e assume "cmd_request w model tokens = (Inl e, w)"
  with assms(1) show ?thesis by simp
next
  fix d assume "cmd_request w model tokens = (Inr (d, 1), w)"
  with assms(1) show ?thesis by simp
next
  fix w'' assume "cmd_request w model tokens = (Inl IOError, w'')"
  with assms(1) show ?thesis by simp
next
  fix bucket r w''
  assume "cmd_request w model tokens = (Inr (Admitted bucket tokens (r - tokens), 0), w'')"
  with assms show ?thesis by (auto simp: denied_def)
qed

theorem denial_leaves_world_witness:
  "cmd_request (scenario_world (Stored stale_record)) ''gpt-5'' 250001 =
     (Inr (DeniedOverLimit ''tokens_250k'' 250000 250001, 1), scenario_world (Stored stale_record)) \<and>
   denied (DeniedOverLimit ''tokens_250k'' 250000 250001) \<and>
   state_file (scenario_world (Stored stale_record)) = Stored stale_record"
proof -
  let ?W = "scenario_world (Stored stale_record)"
  have c: "cmd_request ?W ''gpt-5'' 250001 =
     (Inr (DeniedOverLimit ''tokens_250k'' 250000 250001, 1), ?W)" by code_simp
  have d: "denied (DeniedOverLimit ''tokens_250k'' 250000 250001)" by code_simp
  have f: "state_file ?W = Stored stale_record" by (simp add: scenario_world_def)
  from denial_leaves_world [OF c d] c d f show ?thesis by simp
qed

section \<open>Helper facts for the store and the commands\<close>

lemma map_of_limits_copy: "map_of (limits_copy ls) k = map_option JInt (map_of ls k)"
  by (induction ls) (auto simp: limits_copy_def)


lemma load_state_recovers:
  "state_file w = Missing \<or> state_file w = Unreadable \<or> state_file w = Undecodable \<Longrightarrow>
   load_state w = Inr (default_state (today w))"
  by (auto simp: load_state_def)

lemma rollover_keeps_plan:
  assumes "rollover d (JObj raw) = Inr state"
  shows "dict_get_or state ''plan_tokens_left'' (JInt 0) = dict_get_or raw ''plan_tokens_left'' (JInt 0)"
proof (cases "dict_get raw ''date'' = Some (JStr d)")
  case False
  from rollover_stale [OF False] assms show ?thesis by (auto simp: dict_get_or_def)
next
  case True
  note dt = this
  show ?thesis
  proof (cases "dict_get raw ''buckets''")
    case None
    from rollover_same_day_no_buckets [OF dt None] assms
    have "state = dict_setdefault (raw @ [(''buckets'', JObj (limits_copy DAILY_LIMITS))])
                  ''plan_tokens_left'' (JInt 0)" by simp
    then show ?thesis
      by (simp add: dict_get_or_def map_of_dict_setdefault map_add_def split: option.splits)
  next
    case (Some v)
    show ?thesis
    proof (cases "\<exists>b. v = JObj b")
      case False
      with rollover_same_day_bad_buckets [OF dt Some] assms show ?thesis by simp
    next
      case True
      then obtain b where v: "v = JObj b" by blast
      from rollover_same_day [OF dt Some [unfolded v]] assms
      have "state = dict_setdefault (dict_set raw ''buckets'' (JObj (fill_missing DAILY_LIMITS b)))
                  ''plan_tokens_left'' (JInt 0)" by simp
      then show ?thesis
        by (simp add: dict_get_or_def map_of_dict_setdefault map_of_dict_set split: option.splits)
    qed
  qed
qed

lemma cmd_request_keeps_plan:
  assumes "load_state w = Inr prev"
    and "cmd_request w model tokens = (Inr (dec, code), w')"
  shows "\<exists>state'. load_state w' = Inr state' \<and>
           dict_get_or state' ''plan_tokens_left'' (JInt 0) =
           dict_get_or prev ''plan_tokens_left'' (JInt 0)"
proof (cases "denied dec")
  case True
  have "w' = w"
  proof (rule cmd_request_cases [of w model tokens])
    fix e assume "cmd_request w model tokens = (Inl e, w)"
    with assms(2) show ?thesis by simp
  next
    fix d assume "cmd_request w model tokens = (Inr (d, 1), w)"
    with assms(2) show ?thesis by simp
  next
    fix w'' assume "cmd_request w model tokens = (Inl IOError, w'')"
    with assms(2) show ?thesis by simp
  next
    fix bucket r w''
    assume "cmd_request w model tokens = (Inr (Admitted bucket tokens (r - tokens), 0), w'')"
    with assms(2) True show ?thesis by (auto simp: denied_def)
  qed
  with assms(1) show ?thesis by simp
next
  case False
  then obtain bucket used left where dec: "dec = Admitted bucket used left"
    by (cases dec) (simp_all add: denied_def)
  from cmd_request_admittedD [OF assms(2) [unfolded dec]] assms(1)
  obtain b r plan where f: "plan_tokens_left prev = Some plan" "plan \<le> 0"
    "bucket_for_model (str_lower (str_strip model)) = Some bucket" "0 < tokens"
    "dict_get prev ''buckets'' = Some (JObj b)"
    "as_int (dict_get_or b bucket (JInt 0)) = Some r" "tokens \<le> r" "write_fault w = None"
    by auto
  let ?s = "dict_set prev ''buckets'' (JObj (dict_set b bucket (JInt (r - tokens))))"
  from cmd_request_admitted [OF assms(1) f] assms(2)
  have w': "w' = w\<lparr>state_file := Stored (JObj ?s), saves := Suc (saves w)\<rparr>" by simp
  have rec: "reconciled (today w) ?s"
    by (rule reconciled_set_balance [OF load_state_reconciled [OF assms(1)] f(5)])
  have "load_state w' = Inr ?s"
    by (simp add: w' load_state_stored_reconciled [OF rec])
  moreover have "dict_get_or ?s ''plan_tokens_left'' (JInt 0) =
                 dict_get_or prev ''plan_tokens_left'' (JInt 0)"
    by (simp add: dict_get_or_def map_of_dict_set)
  ultimately show ?thesis by blast
qed

section \<open>Balances, rollover, store and maintenance commands\<close>



text \<open>
  Claim C5. For a raw record whose date is not today, the rollover gives a record dated
  today, with every bucket at its registry limit and the plan tokens of the raw record
  (0 when the field is missing). For a raw record of today whose bucket field is an
  object, the result is the raw record with the registry buckets it lacks added at their
  limits, every balance it has kept, and with the plan field added as 0 when it is
  missing; so a record that has the plan field and lacks no registry bucket is returned
  as it is. A record of today without a bucket field gets the registry limits as its
  buckets.
\<close>

theorem rollover_policy:
  "(dict_get raw ''date'' \<noteq> Some (JStr d) \<longrightarrow>
      rollover d (JObj raw) =
        Inr [(''date'', JStr d),
             (''buckets'', JObj (limits_copy DAILY_LIMITS)),
             (''plan_tokens_left'', dict_get_or raw ''plan_tokens_left'' (JInt 0))]) \<and>
   (map_of DAILY_LIMITS bucket = Some limit \<longrightarrow>
      dict_get (limits_copy DAILY_LIMITS) bucket = Some (JInt limit)) \<and>
   (dict_get raw ''date'' = Some (JStr d) \<and> dict_get raw ''buckets'' = Some (JObj b) \<longrightarrow>
      rollover d (JObj raw) =
        Inr (dict_setdefault (dict_set raw ''buckets'' (JObj (fill_missing DAILY_LIMITS b)))
               ''plan_tokens_left'' (JInt 0)) \<and>
      dict_get (fill_missing DAILY_LIMITS b) bucket =
        (case dict_get b bucket of
           Some v \<Rightarrow> Some v
         | None \<Rightarrow> map_option JInt (map_of DAILY_LIMITS bucket)) \<and>
      (dict_get raw ''plan_tokens_left'' = Some p \<longrightarrow>
         rollover d (JObj raw) =
           Inr (dict_set raw ''buckets'' (JObj (fill_missing DAILY_LIMITS b)))) \<and>
      (dict_get raw ''plan_tokens_left'' = None \<longrightarrow>
         rollover d (JObj raw) =
           Inr (dict_set raw ''buckets'' (JObj (fill_missing DAILY_LIMITS b)) @
                [(''plan_tokens_left'', JInt 0)])) \<and>
      (dict_get raw ''plan_tokens_left'' = Some p \<and>
       list_all (\<lambda>(k, l). dict_get b k \<noteq> None) DAILY_LIMITS \<longrightarrow>
         rollover d (JObj raw) = Inr raw)) \<and>
   (dict_get raw ''date'' = Some (JStr d) \<and> dict_get raw ''buckets'' = None \<longrightarrow>
      rollover d (JObj raw) =
        Inr (dict_setdefault (raw @ [(''buckets'', JObj (limits_copy DAILY_LIMITS))])
               ''plan_tokens_left'' (JInt 0)))"
proof -
  have stale: "dict_get raw ''date'' \<noteq> Some (JStr d) \<longrightarrow>
      rollover d (JObj raw) =
        Inr [(''date'', JStr d),
             (''buckets'', JObj (limits_copy DAILY_LIMITS)),
             (''plan_tokens_left'', dict_get_or raw ''plan_tokens_left'' (JInt 0))]"
    using rollover_stale [of raw d] by simp
  have limit: "map_of DAILY_LIMITS bucket = Some limit \<longrightarrow>
      dict_get (limits_copy DAILY_LIMITS) bucket = Some (JInt limit)"
    by (simp add: dict_get_def map_of_limits_copy)
  have same: "dict_get raw ''date'' = Some (JStr d) \<and> dict_get raw ''buckets'' = Some (JObj b) \<longrightarrow>
      rollover d (JObj raw) =
        Inr (dict_setdefault (dict_set raw ''buckets'' (JObj (fill_missing DAILY_LIMITS b)))
               ''plan_tokens_left'' (JInt 0)) \<and>
      dict_get (fill_missing DAILY_LIMITS b) bucket =
        (case dict_get b bucket of
           Some v \<Rightarrow> Some v
         | None \<Rightarrow> map_option JInt (map_of DAILY_LIMITS bucket)) \<and>
      (dict_get raw ''plan_tokens_left'' = Some p \<longrightarrow>
         rollover d (JObj raw) =
           Inr (dict_set raw ''buckets'' (JObj (fill_missing DAILY_LIMITS b)))) \<and>
      (dict_get raw ''plan_tokens_left'' = None \<longrightarrow>
         rollover d (JObj raw) =
           Inr (dict_set raw ''buckets'' (JObj (fill_missing DAILY_LIMITS b)) @
                [(''plan_tokens_left'', JInt 0)])) \<and>
      (dict_get raw ''plan_tokens_left'' = Some p \<and>
       list_all (\<lambda>(k, l). dict_get b k \<noteq> None) DAILY_LIMITS \<longrightarrow>
         rollover d (JObj raw) = Inr raw)"
  proof (intro impI, elim conjE)
    assume dt: "dict_get raw ''date'' = Some (JStr d)"
      and bk: "dict_get raw ''buckets'' = Some (JObj b)"
    let ?s = "dict_set raw ''buckets'' (JObj (fill_missing DAILY_LIMITS b))"
    have r0: "rollover d (JObj raw) = Inr (dict_setdefault ?s ''plan_tokens_left'' (JInt 0))"
      by (rule rollover_same_day [OF dt bk])
    have r1: "dict_get raw ''plan_tokens_left'' = Some p \<longrightarrow> rollover d (JObj raw) = Inr ?s"
    proof
      assume "dict_get raw ''plan_tokens_left'' = Some p"
      then have "map_of ?s ''plan_tokens_left'' = Some p"
        by (simp add: map_of_dict_set dict_get_def)
      then have "dict_setdefault ?s ''plan_tokens_left'' (JInt 0) = ?s"
        by (rule dict_setdefault_present)
      with r0 show "rollover d (JObj raw) = Inr ?s" by simp
    qed
    have r1': "dict_get raw ''plan_tokens_left'' = None \<longrightarrow>
         rollover d (JObj raw) = Inr (?s @ [(''plan_tokens_left'', JInt 0)])"
    proof
      assume "dict_get raw ''plan_tokens_left'' = None"
      then have "map_of ?s ''plan_tokens_left'' = None"
        by (simp add: map_of_dict_set dict_get_def)
      then have "dict_setdefault ?s ''plan_tokens_left'' (JInt 0) = ?s @ [(''plan_tokens_left'', JInt 0)]"
        by (simp add: dict_setdefault_def)
      with r0 show "rollover d (JObj raw) = Inr (?s @ [(''plan_tokens_left'', JInt 0)])" by simp
    qed
    have r2: "dict_get (fill_missing DAILY_LIMITS b) bucket =
        (case dict_get b bucket of
           Some v \<Rightarrow> Some v
         | None \<Rightarrow> map_option JInt (map_of DAILY_LIMITS bucket))"
      by (simp add: dict_get_def map_of_fill_missing)
    have r3: "dict_get raw ''plan_tokens_left'' = Some p \<and>
       list_all (\<lambda>(k, l). dict_get b k \<noteq> None) DAILY_LIMITS \<longrightarrow> rollover d (JObj raw) = Inr raw"
    proof (intro impI, elim conjE)
      assume pl: "dict_get raw ''plan_tokens_left'' = Some p"
      assume "list_all (\<lambda>(k, l). dict_get b k \<noteq> None) DAILY_LIMITS"
      then have "list_all (\<lambda>(k, l). map_of b k \<noteq> None) DAILY_LIMITS"
        by (simp add: dict_get_def)
      then have "fill_missing DAILY_LIMITS b = b" by (rule fill_missing_present)
      moreover have "dict_set raw ''buckets'' (JObj b) = raw"
        using bk by (simp add: dict_set_same dict_get_def)
      ultimately show "rollover d (JObj raw) = Inr raw" using r1 pl by simp
    qed
    from r0 r2 r1 r1' r3
    show "rollover d (JObj raw) =
        Inr (dict_setdefault ?s ''plan_tokens_left'' (JInt 0)) \<and>
      dict_get (fill_missing DAILY_LIMITS b) bucket =
        (case dict_get b bucket of
           Some v \<Rightarrow> Some v
         | None \<Rightarrow> map_option JInt (map_of DAILY_LIMITS bucket)) \<and>
      (dict_get raw ''plan_tokens_left'' = Some p \<longrightarrow> rollover d (JObj raw) = Inr ?s) \<and>
      (dict_get raw ''plan_tokens_left'' = None \<longrightarrow>
         rollover d (JObj raw) = Inr (?s @ [(''plan_tokens_left'', JInt 0)])) \<and>
      (dict_get raw ''plan_tokens_left'' = Some p \<and>
       list_all (\<lambda>(k, l). dict_get b k \<noteq> None) DAILY_LIMITS \<longrightarrow>
         rollover d (JObj raw) = Inr raw)"
      by (intro conjI)
  qed
  have nobk: "dict_get raw ''date'' = Some (JStr d) \<and> dict_get raw ''buckets'' = None \<longrightarrow>
      rollover d (JObj raw) =
        Inr (dict_setdefault (raw @ [(''buckets'', JObj (limits_copy DAILY_LIMITS))])
               ''plan_tokens_left'' (JInt 0))"
    using rollover_same_day_no_buckets [of raw d] by blast
  from stale limit same nobk show ?thesis by (intro conjI)
qed

theorem rollover_policy_witness:
  "rollover ''2026-11-04''
     (JObj [(''date'', JStr ''2026-11-03''),
            (''buckets'', JObj [(''tokens_250k'', JInt 10), (''tokens_2_5m'', JInt 2500000)]),
            (''plan_tokens_left'', JInt 500)]) =
   Inr [(''date'', JStr ''2026-11-04''),
        (''buckets'', JObj [(''tokens_250k'', JInt 250000), (''tokens_2_5m'', JInt 2500000)]),
        (''plan_tokens_left'', JInt 500)] \<and>
   rollover ''2026-11-04''
     (JObj [(''date'', JStr ''2026-11-04''),
            (''buckets'', JObj [(''tokens_250k'', JInt 10)]),
            (''plan_tokens_left'', JInt 0)]) =
   Inr [(''date'', JStr ''2026-11-04''),
        (''buckets'', JObj [(''tokens_250k'', JInt 10), (''tokens_2_5m'', JInt 2500000)]),
        (''plan_tokens_left'', JInt 0)] \<and>
   rollover ''2026-11-04''
     (JObj [(''date'', JStr ''2026-11-04''),
            (''buckets'', JObj [(''tokens_250k'', JInt 10), (''tokens_2_5m'', JInt 7)]),
            (''plan_tokens_left'', JInt 0)]) =
   Inr [(''date'', JStr ''2026-11-04''),
        (''buckets'', JObj [(''tokens_250k'', JInt 10), (''tokens_2_5m'', JInt 7)]),
        (''plan_tokens_left'', JInt 0)] \<and>
   rollover ''2026-11-04''
     (JObj [(''date'', JStr ''2026-11-04''),
            (''buckets'', JObj [(''tokens_250k'', JInt 10), (''tokens_2_5m'', JInt 7)])]) =
   Inr [(''date'', JStr ''2026-11-04''),
        (''buckets'', JObj [(''tokens_250k'', JInt 10), (''tokens_2_5m'', JInt 7)]),
        (''plan_tokens_left'', JInt 0)] \<and>
   rollover ''2026-11-04'' (JObj [(''date'', JStr ''2026-11-04'')]) =
   Inr [(''date'', JStr ''2026-11-04''),
        (''buckets'', JObj [(''tokens_250k'', JInt 250000), (''tokens_2_5m'', JInt 2500000)]),
        (''plan_tokens_left'', JInt 0)]"
proof -
  let ?d = "''2026-11-04''"
  let ?old = "[(''date'', JStr ''2026-11-03''),
            (''buckets'', JObj [(''tokens_250k'', JInt 10), (''tokens_2_5m'', JInt 2500000)]),
            (''plan_tokens_left'', JInt 500)]"
  let ?new = "[(''date'', JStr ''2026-11-04''),
            (''buckets'', JObj [(''tokens_250k'', JInt 10)]),
            (''plan_tokens_left'', JInt 0)]"
  let ?b2 = "[(''tokens_250k'', JInt 10), (''tokens_2_5m'', JInt 7)]"
  let ?full = "[(''date'', JStr ''2026-11-04''), (''buckets'', JObj ?b2),
            (''plan_tokens_left'', JInt 0)]"
  let ?noplan = "[(''date'', JStr ''2026-11-04''), (''buckets'', JObj ?b2)]"
  let ?bare = "[(''date'', JStr ''2026-11-04'')]"
  have g1: "rollover ?d (JObj ?old) =
     Inr [(''date'', JStr ''2026-11-04''),
        (''buckets'', JObj [(''tokens_250k'', JInt 250000), (''tokens_2_5m'', JInt 2500000)]),
        (''plan_tokens_left'', JInt 500)]"
    using rollover_policy [where raw = ?old and d = ?d]
    by (simp add: dict_get_def dict_get_or_def limits_copy_def DAILY_LIMITS_def)
  have fm: "fill_missing DAILY_LIMITS [(''tokens_250k'', JInt 10)] =
              [(''tokens_250k'', JInt 10), (''tokens_2_5m'', JInt 2500000)]"
    by code_simp
  have fm2: "fill_missing DAILY_LIMITS ?b2 = ?b2" by code_simp
  have g2: "rollover ?d (JObj ?new) =
     Inr [(''date'', JStr ''2026-11-04''),
        (''buckets'', JObj [(''tokens_250k'', JInt 10), (''tokens_2_5m'', JInt 2500000)]),
        (''plan_tokens_left'', JInt 0)]"
  proof -
    have dt: "dict_get ?new ''date'' = Some (JStr ?d)" by code_simp
    have bk: "dict_get ?new ''buckets'' = Some (JObj [(''tokens_250k'', JInt 10)])" by code_simp
    have pl: "dict_get ?new ''plan_tokens_left'' = Some (JInt 0)" by code_simp
    from rollover_policy [where raw = ?new and d = ?d and b = "[(''tokens_250k'', JInt 10)]"
        and p = "JInt 0"] dt bk pl
    have "rollover ?d (JObj ?new) =
            Inr (dict_set ?new ''buckets'' (JObj (fill_missing DAILY_LIMITS [(''tokens_250k'', JInt 10)])))"
      by blast
    then show ?thesis by (simp add: fm)
  qed
  have g3: "rollover ?d (JObj ?full) = Inr ?full"
  proof -
    have dt: "dict_get ?full ''date'' = Some (JStr ?d)" by code_simp
    have bk: "dict_get ?full ''buckets'' = Some (JObj ?b2)" by code_simp
    have pl: "dict_get ?full ''plan_tokens_left'' = Some (JInt 0)" by code_simp
    have cov: "list_all (\<lambda>(k, l). dict_get ?b2 k \<noteq> None) DAILY_LIMITS" by code_simp
    from rollover_policy [where raw = ?full and d = ?d and b = ?b2 and p = "JInt 0"]
      dt bk pl cov
    show ?thesis by blast
  qed
  have g4: "rollover ?d (JObj ?noplan) = Inr ?full"
  proof -
    have dt: "dict_get ?noplan ''date'' = Some (JStr ?d)" by code_simp
    have bk: "dict_get ?noplan ''buckets'' = Some (JObj ?b2)" by code_simp
    have pl: "dict_get ?noplan ''plan_tokens_left'' = None" by code_simp
    from rollover_policy [where raw = ?noplan and d = ?d and b = ?b2] dt bk pl
    have "rollover ?d (JObj ?noplan) =
            Inr (dict_set ?noplan ''buckets'' (JObj (fill_missing DAILY_LIMITS ?b2)) @
                 [(''plan_tokens_left'', JInt 0)])"
      by blast
    then show ?thesis by (simp add: fm2)
  qed
  have g5: "rollover ?d (JObj ?bare) =
     Inr [(''date'', JStr ''2026-11-04''),
        (''buckets'', JObj [(''tokens_250k'', JInt 250000), (''tokens_2_5m'', JInt 2500000)]),
        (''plan_tokens_left'', JInt 0)]"
  proof -
    have dt: "dict_get ?bare ''date'' = Some (JStr ?d)" by code_simp
    have bk: "dict_get ?bare ''buckets'' = None" by code_simp
    from rollover_policy [where raw = ?bare and d = ?d] dt bk
    have "rollover ?d (JObj ?bare) =
            Inr (dict_setdefault (?bare @ [(''buckets'', JObj (limits_copy DAILY_LIMITS))])
                   ''plan_tokens_left'' (JInt 0))"
      by blast
    then show ?thesis
      by (simp add: dict_setdefault_def limits_copy_def DAILY_LIMITS_def)
  qed
  from g1 g2 g3 g4 g5 show ?thesis by (intro conjI)
qed

text \<open>
  A record of today that lacks no registry bucket is still changed when it has no plan
  field: the plan field is added with 0.
\<close>

theorem rollover_policy_counterexample:
  "rollover ''2026-11-04''
     (JObj [(''date'', JStr ''2026-11-04''),
            (''buckets'', JObj [(''tokens_250k'', JInt 10), (''tokens_2_5m'', JInt 7)])]) =
   Inr [(''date'', JStr ''2026-11-04''),
        (''buckets'', JObj [(''tokens_250k'', JInt 10), (''tokens_2_5m'', JInt 7)]),
        (''plan_tokens_left'', JInt 0)] \<and>
   rollover ''2026-11-04''
     (JObj [(''date'', JStr ''2026-11-04''),
            (''buckets'', JObj [(''tokens_250k'', JInt 10), (''tokens_2_5m'', JInt 7)])]) \<noteq>
   Inr [(''date'', JStr ''2026-11-04''),
        (''buckets'', JObj [(''tokens_250k'', JInt 10), (''tokens_2_5m'', JInt 7)])]"
  by code_simp

text \<open>
  Claim C6. \<^verbatim>\<open>load_state\<close> answers a missing file, a read error and a JSON syntax error
  with the default record (\<open>load_state_recovers\<close>). It does not recover from every
  damaged file: a JSON document that is not an object, an object whose bucket field is
  not an object, and a file that is not UTF-8 make it raise, and the request fails with
  the exception instead of a decision.
\<close>

theorem load_state_wrong_shape:
  "load_state (scenario_world (Stored (JArr []))) = Inl AttributeError \<and>
   load_state (scenario_world (Stored (JObj [(''date'', JStr ''2026-11-04''), (''buckets'', JNull)])))
     = Inl AttributeError \<and>
   load_state (scenario_world Misencoded) = Inl UnicodeDecodeError \<and>
   cmd_request (scenario_world (Stored (JArr []))) ''gpt-5'' 100 =
     (Inl AttributeError, scenario_world (Stored (JArr [])))"
  by code_simp

text \<open>
  Claim C7. \<^verbatim>\<open>cmd_set_plan\<close> with a negative number returns exit code 1 and leaves the
  world unchanged. With a number that is not negative, on a state that loads and a write
  that succeeds, it returns 0, stores the loaded state with the plan field set to that
  number, and the next load reads exactly that number.
\<close>

theorem set_plan_tokens:
  "(tokens < 0 \<longrightarrow> cmd_set_plan w tokens = (Inr 1, w)) \<and>
   (0 \<le> tokens \<and> load_state w = Inr state \<and> write_fault w = None \<longrightarrow>
      cmd_set_plan w tokens =
        (Inr 0,
         w\<lparr>state_file := Stored (JObj (dict_set state ''plan_tokens_left'' (JInt tokens))),
           saves := Suc (saves w)\<rparr>) \<and>
      load_state (snd (cmd_set_plan w tokens)) =
        Inr (dict_set state ''plan_tokens_left'' (JInt tokens)) \<and>
      plan_tokens_left (dict_set state ''plan_tokens_left'' (JInt tokens)) = Some tokens)"
proof -
  have neg: "tokens < 0 \<longrightarrow> cmd_set_plan w tokens = (Inr 1, w)"
    by (simp add: cmd_set_plan_def)
  have ok: "0 \<le> tokens \<and> load_state w = Inr state \<and> write_fault w = None \<longrightarrow>
      cmd_set_plan w tokens =
        (Inr 0,
         w\<lparr>state_file := Stored (JObj (dict_set state ''plan_tokens_left'' (JInt tokens))),
           saves := Suc (saves w)\<rparr>) \<and>
      load_state (snd (cmd_set_plan w tokens)) =
        Inr (dict_set state ''plan_tokens_left'' (JInt tokens)) \<and>
      plan_tokens_left (dict_set state ''plan_tokens_left'' (JInt tokens)) = Some tokens"
  proof (intro impI, elim conjE)
    assume a: "0 \<le> tokens" "load_state w = Inr state" "write_fault w = None"
    let ?s = "dict_set state ''plan_tokens_left'' (JInt tokens)"
    have rec: "reconciled (today w) ?s"
      by (rule reconciled_set_plan [OF load_state_reconciled [OF a(2)]])
    have res: "cmd_set_plan w tokens =
        (Inr 0, w\<lparr>state_file := Stored (JObj ?s), saves := Suc (saves w)\<rparr>)"
      using a(1,2) by (simp add: cmd_set_plan_def save_state_reconciled [OF rec a(3)])
    have rb: "load_state (snd (cmd_set_plan w tokens)) = Inr ?s"
      by (simp add: res load_state_stored_reconciled [OF rec])
    have plan: "plan_tokens_left ?s = Some tokens"
      by (simp add: plan_tokens_left_def dict_get_or_def map_of_dict_set as_int_def)
    from res rb plan
    show "cmd_set_plan w tokens =
        (Inr 0, w\<lparr>state_file := Stored (JObj ?s), saves := Suc (saves w)\<rparr>) \<and>
      load_state (snd (cmd_set_plan w tokens)) = Inr ?s \<and>
      plan_tokens_left ?s = Some tokens"
      by (intro conjI)
  qed
  from neg ok show ?thesis by (intro conjI)
qed

theorem set_plan_tokens_witness:
  "cmd_set_plan (scenario_world Missing) (- 5) = (Inr 1, scenario_world Missing) \<and>
   cmd_set_plan (scenario_world Missing) 7 =
     (Inr 0,
      \<lparr>today = ''2026-11-04'',
       state_file =
         Stored (JObj [(''date'', JStr ''2026-11-04''),
                       (''buckets'',
                        JObj [(''tokens_250k'', JInt 250000), (''tokens_2_5m'', JInt 2500000)]),
                       (''plan_tokens_left'', JInt 7)]),
       write_fault = None, saves = 1\<rparr>)"
proof -
  let ?W = "scenario_world Missing"
  let ?S = "[(''date'', JStr ''2026-11-04''),
             (''buckets'', JObj [(''tokens_250k'', JInt 250000), (''tokens_2_5m'', JInt 2500000)]),
             (''plan_tokens_left'', JInt 0)]"
  have l: "load_state ?W = Inr ?S" by code_simp
  have wf: "write_fault ?W = None" by code_simp
  have g1: "cmd_set_plan ?W (- 5) = (Inr 1, ?W)"
    using set_plan_tokens [where w = ?W and tokens = "- 5"] by simp
  have g2: "cmd_set_plan ?W 7 =
     (Inr 0,
      \<lparr>today = ''2026-11-04'',
       state_file =
         Stored (JObj [(''date'', JStr ''2026-11-04''),
                       (''buckets'',
                        JObj [(''tokens_250k'', JInt 250000), (''tokens_2_5m'', JInt 2500000)]),
                       (''plan_tokens_left'', JInt 7)]),
       write_fault = None, saves = 1\<rparr>)"
    using set_plan_tokens [where w = ?W and tokens = 7 and state = ?S] l wf
    by (simp add: scenario_world_def)
  from g1 g2 show ?thesis by (intro conjI)
qed

text \<open>
  Claim C8. \<^verbatim>\<open>cmd_reset\<close> stores a record dated today, with every bucket at its registry
  limit and the plan tokens of the state it loaded. The rollover keeps the plan tokens of
  the raw record, and a request that returns leaves a file whose plan tokens are those
  loaded before: the plan field changes only by \<^verbatim>\<open>cmd_set_plan\<close>.
\<close>

theorem reset_buckets:
  "(load_state w = Inr prev \<and> write_fault w = None \<longrightarrow>
      cmd_reset w =
        (Inr 0,
         w\<lparr>state_file :=
              Stored (JObj [(''date'', JStr (today w)),
                            (''buckets'', JObj (limits_copy DAILY_LIMITS)),
                            (''plan_tokens_left'', dict_get_or prev ''plan_tokens_left'' (JInt 0))]),
           saves := Suc (saves w)\<rparr>)) \<and>
   (map_of DAILY_LIMITS bucket = Some limit \<longrightarrow>
      dict_get (limits_copy DAILY_LIMITS) bucket = Some (JInt limit)) \<and>
   (rollover d (JObj raw) = Inr state \<longrightarrow>
      dict_get_or state ''plan_tokens_left'' (JInt 0) =
      dict_get_or raw ''plan_tokens_left'' (JInt 0)) \<and>
   (load_state w = Inr prev \<and> cmd_request w model tokens = (Inr (dec, code), w') \<longrightarrow>
      (\<exists>state'. load_state w' = Inr state' \<and>
         dict_get_or state' ''plan_tokens_left'' (JInt 0) =
         dict_get_or prev ''plan_tokens_left'' (JInt 0)))"
proof -
  have reset: "load_state w = Inr prev \<and> write_fault w = None \<longrightarrow>
      cmd_reset w =
        (Inr 0,
         w\<lparr>state_file :=
              Stored (JObj [(''date'', JStr (today w)),
                            (''buckets'', JObj (limits_copy DAILY_LIMITS)),
                            (''plan_tokens_left'', dict_get_or prev ''plan_tokens_left'' (JInt 0))]),
           saves := Suc (saves w)\<rparr>)"
    by (simp add: cmd_reset_def save_state_def default_state_def)
  have limit: "map_of DAILY_LIMITS bucket = Some limit \<longrightarrow>
      dict_get (limits_copy DAILY_LIMITS) bucket = Some (JInt limit)"
    by (simp add: dict_get_def map_of_limits_copy)
  have roll: "rollover d (JObj raw) = Inr state \<longrightarrow>
      dict_get_or state ''plan_tokens_left'' (JInt 0) =
      dict_get_or raw ''plan_tokens_left'' (JInt 0)"
    using rollover_keeps_plan by blast
  have req: "load_state w = Inr prev \<and> cmd_request w model tokens = (Inr (dec, code), w') \<longrightarrow>
      (\<exists>state'. load_state w' = Inr state' \<and>
         dict_get_or state' ''plan_tokens_left'' (JInt 0) =
         dict_get_or prev ''plan_tokens_left'' (JInt 0))"
    using cmd_request_keeps_plan by blast
  from reset limit roll req show ?thesis by (intro conjI)
qed

theorem reset_buckets_witness:
  "cmd_reset (scenario_world (Stored yesterday_record)) =
     (Inr 0,
      \<lparr>today = ''2026-11-04'',
       state_file =
         Stored (JObj [(''date'', JStr ''2026-11-04''),
                       (''buckets'',
                        JObj [(''tokens_250k'', JInt 250000), (''tokens_2_5m'', JInt 2500000)]),
                       (''plan_tokens_left'', JInt 500)]),
       write_fault = None, saves = 1\<rparr>) \<and>
   dict_get (limits_copy DAILY_LIMITS) ''tokens_250k'' = Some (JInt 250000)"
proof -
  let ?W = "scenario_world (Stored yesterday_record)"
  let ?S = "[(''date'', JStr ''2026-11-04''),
             (''buckets'', JObj [(''tokens_250k'', JInt 250000), (''tokens_2_5m'', JInt 2500000)]),
             (''plan_tokens_left'', JInt 500)]"
  have l: "load_state ?W = Inr ?S" by code_simp
  have wf: "write_fault ?W = None" by code_simp
  have m: "map_of DAILY_LIMITS ''tokens_250k'' = Some 250000" by code_simp
  note T = reset_buckets [where w = ?W and prev = ?S and bucket = "''tokens_250k''"
      and limit = 250000]
  have g1: "cmd_reset ?W =
     (Inr 0,
      \<lparr>today = ''2026-11-04'',
       state_file =
         Stored (JObj [(''date'', JStr ''2026-11-04''),
                       (''buckets'',
                        JObj [(''tokens_250k'', JInt 250000), (''tokens_2_5m'', JInt 2500000)]),
                       (''plan_tokens_left'', JInt 500)]),
       write_fault = None, saves = 1\<rparr>)"
    using T l wf
    by (simp add: scenario_world_def dict_get_or_def limits_copy_def DAILY_LIMITS_def)
  have g2: "dict_get (limits_copy DAILY_LIMITS) ''tokens_250k'' = Some (JInt 250000)"
    using T m by simp
  from g1 g2 show ?thesis by (intro conjI)
qed

lemma allowlist_names_trimmed:
  "list_all (\<lambda>(m, b). m \<noteq> [] \<and> \<not> isspace (hd m) \<and> \<not> isspace (last m)) MODEL_BUCKETS"
  by code_simp

lemma allowlisted_trimmed:
  assumes "bucket_for_model m = Some bucket"
  shows "m \<noteq> [] \<and> \<not> isspace (hd m) \<and> \<not> isspace (last m)"
proof -
  from assms have "(m, bucket) \<in> set MODEL_BUCKETS"
    by (simp add: bucket_for_model_def map_of_SomeD)
  with allowlist_names_trimmed show ?thesis by (auto simp: list_all_iff)
qed

lemma dropWhile_all: "list_all P xs \<Longrightarrow> dropWhile P (xs @ ys) = dropWhile P ys"
  by (induction xs) simp_all

lemma str_strip_padded:
  assumes "list_all isspace pre" and "list_all isspace post"
    and "t \<noteq> []" and "\<not> isspace (hd t)" and "\<not> isspace (last t)"
  shows "str_strip (pre @ t @ post) = t"
proof -
  have front: "dropWhile isspace (pre @ t @ post) = t @ post"
  proof -
    have "dropWhile isspace (pre @ t @ post) = dropWhile isspace (t @ post)"
      using assms(1) by (rule dropWhile_all)
    also have "\<dots> = t @ post" using assms(3,4) by (cases t) simp_all
    finally show ?thesis .
  qed
  have "dropWhile isspace (rev (t @ post)) = dropWhile isspace (rev post @ rev t)" by simp
  also have "\<dots> = dropWhile isspace (rev t)"
    using assms(2) by (intro dropWhile_all) (simp add: list_all_iff)
  also have "\<dots> = rev t"
    using assms(3,5) by (cases "rev t") (simp_all add: last_rev [symmetric] hd_rev)
  finally show ?thesis by (simp add: str_strip_def front)
qed

lemma str_lower_ends:
  assumes "str_lower t = m" and "m \<noteq> []" and "\<not> isspace (hd m)" and "\<not> isspace (last m)"
  shows "t \<noteq> [] \<and> \<not> isspace (hd t) \<and> \<not> isspace (last t)"
proof -
  from assms(1,2) have ne: "t \<noteq> []" by (auto simp: str_lower_def)
  from assms(1) have m: "m = map lower_char t" by (simp add: str_lower_def)
  from ne have "hd m = lower_char (hd t)" "last m = lower_char (last t)"
    unfolding m by (simp_all add: hd_map last_map)
  with assms(3,4) ne show ?thesis by (simp add: isspace_lower_char)
qed

lemma normalise_padded:
  assumes "bucket_for_model m = Some bucket" and "list_all isspace pre"
    and "list_all isspace post" and "str_lower t = m"
  shows "str_lower (str_strip (pre @ t @ post)) = m"
proof -
  from allowlisted_trimmed [OF assms(1)]
  have "m \<noteq> []" "\<not> isspace (hd m)" "\<not> isspace (last m)" by simp_all
  from str_lower_ends [OF assms(4) this]
  have "t \<noteq> []" "\<not> isspace (hd t)" "\<not> isspace (last t)" by simp_all
  from str_strip_padded [OF assms(2,3) this] assms(4) show ?thesis by simp
qed

text \<open>
  Claim C9. \<^verbatim>\<open>cmd_request\<close> looks the model up after \<^verbatim>\<open>strip\<close> and \<^verbatim>\<open>lower\<close>. A name and
  its normal form get the same answer in every world. A name whose normal form is not on
  the allowlist is refused with that normal form in the message. A name made of an
  allowlisted name in any letter case with white space around it has the allowlisted name
  as its normal form, gets the answer the allowlisted name gets, and is decided on that
  name's bucket: over the balance it is denied, within the balance it is admitted.
\<close>

theorem request_normalises_model:
  "cmd_request w (str_lower (str_strip s)) tokens = cmd_request w s tokens \<and>
   (load_state w = Inr state \<and> plan_tokens_left state = Some plan \<and> plan \<le> 0 \<and>
    bucket_for_model (str_lower (str_strip s)) = None \<longrightarrow>
      cmd_request w s tokens = (Inr (DeniedUnknownResource (str_lower (str_strip s)), 1), w)) \<and>
   (bucket_for_model m = Some bucket \<and> list_all isspace pre \<and> list_all isspace post \<and>
    str_lower t = m \<longrightarrow>
      str_lower (str_strip (pre @ t @ post)) = m \<and>
      cmd_request w (pre @ t @ post) tokens = cmd_request w m tokens \<and>
      (load_state w = Inr state \<and> plan_tokens_left state = Some plan \<and> plan \<le> 0 \<and>
       0 < tokens \<and> remaining_tokens state bucket = Some r \<longrightarrow>
         (r < tokens \<longrightarrow>
            cmd_request w (pre @ t @ post) tokens =
              (Inr (DeniedOverLimit bucket r tokens, 1), w)) \<and>
         (tokens \<le> r \<and> write_fault w = None \<longrightarrow>
            fst (cmd_request w (pre @ t @ post) tokens) =
              Inr (Admitted bucket tokens (r - tokens), 0))))"
proof -
  have inv: "cmd_request w (str_lower (str_strip s)) tokens = cmd_request w s tokens"
    by (simp add: cmd_request_def normalise_idem)
  have unknown: "load_state w = Inr state \<and> plan_tokens_left state = Some plan \<and> plan \<le> 0 \<and>
    bucket_for_model (str_lower (str_strip s)) = None \<longrightarrow>
      cmd_request w s tokens = (Inr (DeniedUnknownResource (str_lower (str_strip s)), 1), w)"
    using cmd_request_unknown [of w state plan s tokens] by blast
  have known: "bucket_for_model m = Some bucket \<and> list_all isspace pre \<and> list_all isspace post \<and>
    str_lower t = m \<longrightarrow>
      str_lower (str_strip (pre @ t @ post)) = m \<and>
      cmd_request w (pre @ t @ post) tokens = cmd_request w m tokens \<and>
      (load_state w = Inr state \<and> plan_tokens_left state = Some plan \<and> plan \<le> 0 \<and>
       0 < tokens \<and> remaining_tokens state bucket = Some r \<longrightarrow>
         (r < tokens \<longrightarrow>
            cmd_request w (pre @ t @ post) tokens =
              (Inr (DeniedOverLimit bucket r tokens, 1), w)) \<and>
         (tokens \<le> r \<and> write_fault w = None \<longrightarrow>
            fst (cmd_request w (pre @ t @ post) tokens) =
              Inr (Admitted bucket tokens (r - tokens), 0)))"
  proof (intro impI, elim conjE)
    assume a: "bucket_for_model m = Some bucket" "list_all isspace pre" "list_all isspace post"
      "str_lower t = m"
    let ?s = "pre @ t @ post"
    have n: "str_lower (str_strip ?s) = m" by (rule normalise_padded [OF a])
    have nm: "str_lower (str_strip m) = m"
      using normalise_idem [of ?s] by (simp only: n)
    have eq: "cmd_request w ?s tokens = cmd_request w m tokens"
      by (simp add: cmd_request_def n nm)
    have bk: "bucket_for_model (str_lower (str_strip ?s)) = Some bucket"
      using a(1) by (simp only: n)
    have dec: "load_state w = Inr state \<and> plan_tokens_left state = Some plan \<and> plan \<le> 0 \<and>
       0 < tokens \<and> remaining_tokens state bucket = Some r \<longrightarrow>
         (r < tokens \<longrightarrow>
            cmd_request w ?s tokens = (Inr (DeniedOverLimit bucket r tokens, 1), w)) \<and>
         (tokens \<le> r \<and> write_fault w = None \<longrightarrow>
            fst (cmd_request w ?s tokens) = Inr (Admitted bucket tokens (r - tokens), 0))"
    proof (intro impI, elim conjE)
      assume h: "load_state w = Inr state" "plan_tokens_left state = Some plan" "plan \<le> 0"
        "0 < tokens" "remaining_tokens state bucket = Some r"
      have over: "r < tokens \<longrightarrow>
            cmd_request w ?s tokens = (Inr (DeniedOverLimit bucket r tokens, 1), w)"
        using cmd_request_over_limit [OF h(1,2,3) bk h(4,5)] by blast
      have admit: "tokens \<le> r \<and> write_fault w = None \<longrightarrow>
            fst (cmd_request w ?s tokens) = Inr (Admitted bucket tokens (r - tokens), 0)"
      proof (intro impI, elim conjE)
        assume le: "tokens \<le> r" and wf: "write_fault w = None"
        from h(5) obtain b where b: "dict_get state ''buckets'' = Some (JObj b)"
          and r: "as_int (dict_get_or b bucket (JInt 0)) = Some r"
          by (rule remaining_tokensD)
        from cmd_request_admitted [OF h(1,2,3) bk h(4) b r le wf]
        show "fst (cmd_request w ?s tokens) = Inr (Admitted bucket tokens (r - tokens), 0)"
          by simp
      qed
      from over admit
      show "(r < tokens \<longrightarrow>
            cmd_request w ?s tokens = (Inr (DeniedOverLimit bucket r tokens, 1), w)) \<and>
         (tokens \<le> r \<and> write_fault w = None \<longrightarrow>
            fst (cmd_request w ?s tokens) = Inr (Admitted bucket tokens (r - tokens), 0))"
        by (intro conjI)
    qed
    from n eq dec
    show "str_lower (str_strip ?s) = m \<and>
      cmd_request w ?s tokens = cmd_request w m tokens \<and>
      (load_state w = Inr state \<and> plan_tokens_left state = Some plan \<and> plan \<le> 0 \<and>
       0 < tokens \<and> remaining_tokens state bucket = Some r \<longrightarrow>
         (r < tokens \<longrightarrow>
            cmd_request w ?s tokens = (Inr (DeniedOverLimit bucket r tokens, 1), w)) \<and>
         (tokens \<le> r \<and> write_fault w = None \<longrightarrow>
            fst (cmd_request w ?s tokens) = Inr (Admitted bucket tokens (r - tokens), 0)))"
      by (intro conjI)
  qed
  from inv unknown known show ?thesis by (intro conjI)
qed

theorem request_normalises_model_witness:
  "str_lower (str_strip ''  GPT-5 '') = ''gpt-5'' \<and>
   bucket_for_model ''gpt-5'' = Some ''tokens_250k'' \<and>
   cmd_request (scenario_world (Stored today_record)) ''  GPT-5 '' 4 =
     cmd_request (scenario_world (Stored today_record)) ''gpt-5'' 4 \<and>
   fst (cmd_request (scenario_world (Stored today_record)) ''  GPT-5 '' 4) =
     Inr (Admitted ''tokens_250k'' 4 6, 0) \<and>
   cmd_request (scenario_world (Stored today_record)) ''  GPT-5 '' 11 =
     (Inr (DeniedOverLimit ''tokens_250k'' 10 11, 1), scenario_world (Stored today_record)) \<and>
   cmd_request (scenario_world (Stored today_record)) '' Gpt-1'' 4 =
     (Inr (DeniedUnknownResource ''gpt-1'', 1), scenario_world (Stored today_record))"
proof -
  let ?W0 = "scenario_world (Stored today_record)"
  let ?S0 = "[(''date'', JStr ''2026-11-04''),
              (''buckets'', JObj [(''tokens_250k'', JInt 10), (''tokens_2_5m'', JInt 2500000)]),
              (''plan_tokens_left'', JInt 0)]"
  have l0: "load_state ?W0 = Inr ?S0" by code_simp
  have p0: "plan_tokens_left ?S0 = Some 0" by code_simp
  have r0: "remaining_tokens ?S0 ''tokens_250k'' = Some 10" by code_simp
  have wf: "write_fault ?W0 = None" by code_simp
  have b5: "bucket_for_model ''gpt-5'' = Some ''tokens_250k''" by code_simp
  have pre: "list_all isspace ''  ''" by code_simp
  have post: "list_all isspace '' ''" by code_simp
  have low: "str_lower ''GPT-5'' = ''gpt-5''" by code_simp
  have cat: "''  '' @ ''GPT-5'' @ '' '' = ''  GPT-5 ''" by simp
  have n1: "str_lower (str_strip '' Gpt-1'') = ''gpt-1''" by code_simp
  have b1: "bucket_for_model ''gpt-1'' = None" by code_simp
  note T4 = request_normalises_model [where w = ?W0 and state = ?S0 and plan = 0 and tokens = 4
      and m = "''gpt-5''" and bucket = "''tokens_250k''" and pre = "''  ''" and post = "'' ''"
      and t = "''GPT-5''" and r = 10 and s = "'' Gpt-1''"]
  note T11 = request_normalises_model [where w = ?W0 and state = ?S0 and plan = 0 and tokens = 11
      and m = "''gpt-5''" and bucket = "''tokens_250k''" and pre = "''  ''" and post = "'' ''"
      and t = "''GPT-5''" and r = 10 and s = "'' Gpt-1''"]
  have g1: "str_lower (str_strip ''  GPT-5 '') = ''gpt-5''"
    using T4 b5 pre post low by (simp only: cat; blast)
  have g2: "cmd_request ?W0 ''  GPT-5 '' 4 = cmd_request ?W0 ''gpt-5'' 4"
    using T4 b5 pre post low by (simp only: cat; blast)
  have g3: "fst (cmd_request ?W0 ''  GPT-5 '' 4) = Inr (Admitted ''tokens_250k'' 4 6, 0)"
  proof -
    have "fst (cmd_request ?W0 ''  GPT-5 '' 4) = Inr (Admitted ''tokens_250k'' 4 (10 - 4), 0)"
      using T4 b5 pre post low l0 p0 r0 wf by (simp only: cat; simp)
    then show ?thesis by simp
  qed
  have g4: "cmd_request ?W0 ''  GPT-5 '' 11 =
     (Inr (DeniedOverLimit ''tokens_250k'' 10 11, 1), ?W0)"
    using T11 b5 pre post low l0 p0 r0 by (simp only: cat; simp)
  have g5: "cmd_request ?W0 '' Gpt-1'' 4 = (Inr (DeniedUnknownResource ''gpt-1'', 1), ?W0)"
    using T4 l0 p0 b1 by (simp add: n1)
  from g1 b5 g2 g3 g4 g5 show ?thesis by (intro conjI)
qed

end
